theory Spec2Isabelle
  imports Main "HOL-Library.Word" "HOL-Library.AList"
begin

section \<open>Keepalived: the keepalive liveness monitor of the backend\<close>

text \<open>
  A shallow embedding of the file with \<^verbatim>\<open>package keepalived\<close>. The daemon talks
  to its collaborators through Go interfaces: the store, the message bus, the
  per-entity monitors and the Deregistrar. Each call on a collaborator is appended to a
  log, and what the collaborator answers is read from an environment, as a function of
  the log so far and of the arguments. What \<^verbatim>\<open>Start\<close> and \<^verbatim>\<open>Stop\<close> do to the
  channels, to the WaitGroup and with \<^verbatim>\<open>go\<close> is appended to the same log, so that the
  log gives the order of all of it.
\<close>

subsection \<open>Data\<close>

type_synonym int64 = "64 word"
type_synonym uint32 = "32 word"

text \<open>\<^verbatim>\<open>time.Duration\<close> is an \<^verbatim>\<open>int64\<close> count of nanoseconds.\<close>

type_synonym Duration = "64 word"

definition Second :: Duration where
  "Second = 1000000000"

text \<open>A Go \<^verbatim>\<open>error\<close> value; \<^verbatim>\<open>nil\<close> is \<open>None\<close> of \<open>error option\<close>.\<close>

datatype error = Error string

text \<open>
  What a Go call does: it returns a value, or it panics (a nil pointer is dereferenced,
  a closed channel is closed again, a WaitGroup counter goes negative).
\<close>

datatype 'a outcome = Panicked | Returned 'a

text \<open>
  \<^verbatim>\<open>types.Entity\<close>, the fields the daemon reads and writes.
  \<^verbatim>\<open>KeepaliveTimeout\<close> is a \<^verbatim>\<open>uint32\<close>: the source assigns it to
  \<^verbatim>\<open>Check.Interval\<close> as it is and converts it where an \<^verbatim>\<open>int64\<close> or a
  \<^verbatim>\<open>Duration\<close> is needed.
\<close>

record entity =
  ID :: string
  Class :: string
  Organization :: string
  Environment :: string
  KeepaliveTimeout :: uint32
  Deregister :: bool
  LastSeen :: int64

record check =
  Name :: string
  Interval :: uint32
  Handlers :: "string list"
  Check_Environment :: string
  Check_Organization :: string
  Status :: "32 word"

text \<open>\<^verbatim>\<open>types.Event\<close>: \<^verbatim>\<open>Entity\<close> and \<^verbatim>\<open>Check\<close> are pointers and may be nil.\<close>

record event =
  Timestamp :: int64
  Entity :: "entity option"
  Check :: "check option"

text \<open>\<^verbatim>\<open>types.KeepaliveRecord\<close>, the persisted marker of a failing keepalive.\<close>

record keepalive_record =
  Record_Environment :: string
  Record_Organization :: string
  EntityID :: string
  Time :: int64

text \<open>
  A \<^verbatim>\<open>context.Context\<close>, reduced to the two values the store reads from it:
  \<^verbatim>\<open>types.OrganizationKey\<close> and \<^verbatim>\<open>types.EnvironmentKey\<close>.
\<close>

record Context =
  ctx_Organization :: "string option"
  ctx_Environment :: "string option"

definition context_TODO :: Context where
  "context_TODO = \<lparr>ctx_Organization = None, ctx_Environment = None\<rparr>"

text \<open>
  Modelled from the spec: \<^verbatim>\<open>types.SetContextFromResource\<close> is not among the source
  files; the context attributes are the organization and the environment, derived from
  the entity before any store call.
\<close>

definition SetContextFromResource :: "entity \<Rightarrow> Context" where
  "SetContextFromResource e =
     \<lparr>ctx_Organization = Some (Organization e), ctx_Environment = Some (Environment e)\<rparr>"

datatype topic = TopicKeepalive | TopicEvent | TopicEventRaw

text \<open>\<^verbatim>\<open>messaging.Subscription\<close>: the topic and the name of the consumer it binds.\<close>

datatype subscription = Subscription topic string

text \<open>
  Modelled from the spec: the \<^verbatim>\<open>monitor\<close> package is not among the source files. A
  monitor has a configured timeout (\<^verbatim>\<open>GetTimeout\<close>) and is stopped or not
  (\<^verbatim>\<open>IsStopped\<close>); \<open>mon_id\<close> tells one monitor object from another.
\<close>

record monitor =
  mon_id :: nat
  mon_timeout :: Duration
  mon_stopped :: bool

subsection \<open>The collaborators\<close>

text \<open>What a \<^verbatim>\<open>go\<close> statement of the daemon launches.\<close>

datatype goroutine = Go_processKeepalives | Go_MonitorSweeper | Go_MonitorStop nat

text \<open>
  What the daemon does to the outside, one entry of the log each: a call on the bus, on
  a subscription, on the store, on a monitor or on the Deregistrar, and the operations
  of \<^verbatim>\<open>Stop\<close> and \<^verbatim>\<open>Start\<close> on the Go runtime (closing a channel, the return of
  \<^verbatim>\<open>WaitGroup.Wait\<close>, a \<^verbatim>\<open>go\<close> statement).
\<close>

datatype call =
    Call_Subscribe topic string
  | Call_Cancel subscription
  | Call_Publish topic event
  | Call_GetFailingKeepalives Context
  | Call_GetEventByEntityCheck Context string string
  | Call_GetEntityByID Context string
  | Call_UpdateEntity Context entity
  | Call_DeleteFailingKeepalive Context entity
  | Call_UpdateFailingKeepalive Context entity int64
  | Call_MonitorFactory "entity option" Duration
  | Call_MonitorStop nat
  | Call_MonitorHandleUpdate nat event
  | Call_Deregister entity
  | Call_close_keepaliveChan
  | Call_wg_Wait
  | Call_go goroutine
  | Call_close_errChan

text \<open>
  The answers of the collaborators. \<^verbatim>\<open>Entity.Validate\<close>,
  \<^verbatim>\<open>Monitor.HandleUpdate\<close> and \<^verbatim>\<open>Deregistration.Deregister\<close> are not among
  the source files: what they return is a parameter as well.
\<close>

record env =
  Validate :: "entity \<Rightarrow> error option"
  Subscribe_result :: "call list \<Rightarrow> topic \<Rightarrow> string \<Rightarrow> error + subscription"
  Cancel_result :: "call list \<Rightarrow> subscription \<Rightarrow> error option"
  Publish_result :: "call list \<Rightarrow> topic \<Rightarrow> event \<Rightarrow> error option"
  GetFailingKeepalives_result :: "call list \<Rightarrow> Context \<Rightarrow> error + keepalive_record list"
  GetEventByEntityCheck_result ::
    "call list \<Rightarrow> Context \<Rightarrow> string \<Rightarrow> string \<Rightarrow> error + event option"
  GetEntityByID_result :: "call list \<Rightarrow> Context \<Rightarrow> string \<Rightarrow> error + entity option"
  UpdateEntity_result :: "call list \<Rightarrow> Context \<Rightarrow> entity \<Rightarrow> error option"
  DeleteFailingKeepalive_result :: "call list \<Rightarrow> Context \<Rightarrow> entity \<Rightarrow> error option"
  UpdateFailingKeepalive_result ::
    "call list \<Rightarrow> Context \<Rightarrow> entity \<Rightarrow> int64 \<Rightarrow> error option"
  MonitorHandleUpdate_result :: "call list \<Rightarrow> nat \<Rightarrow> event \<Rightarrow> error option"
  Deregister_result :: "call list \<Rightarrow> entity \<Rightarrow> error option"

text \<open>
  Everything outside the daemon that a call can change: the log, in the order of the
  entries, the lines written by the logger, the goroutines launched, the clock (the
  n-th reading of \<^verbatim>\<open>time.Now().Unix()\<close>) and the identity of the next monitor.
\<close>

record world =
  calls :: "call list"
  logs :: "string list"
  spawned :: "goroutine list"
  clock :: "nat \<Rightarrow> int64"
  clock_reads :: nat
  next_monitor :: nat

definition called :: "call \<Rightarrow> world \<Rightarrow> world" where
  "called c w = w\<lparr>calls := calls w @ [c]\<rparr>"

definition logger_Error :: "string \<Rightarrow> world \<Rightarrow> world" where
  "logger_Error s w = w\<lparr>logs := logs w @ [s]\<rparr>"

definition logger_Info :: "string \<Rightarrow> world \<Rightarrow> world" where
  "logger_Info s w = w\<lparr>logs := logs w @ [s]\<rparr>"

definition go :: "goroutine \<Rightarrow> world \<Rightarrow> world" where
  "go g w = called (Call_go g) (w\<lparr>spawned := spawned w @ [g]\<rparr>)"

definition time_Now_Unix :: "world \<Rightarrow> int64 \<times> world" where
  "time_Now_Unix w = (clock w (clock_reads w), w\<lparr>clock_reads := Suc (clock_reads w)\<rparr>)"

definition bus_Subscribe :: "env \<Rightarrow> topic \<Rightarrow> string \<Rightarrow> world \<Rightarrow> (error + subscription) \<times> world" where
  "bus_Subscribe env t n w = (Subscribe_result env (calls w) t n, called (Call_Subscribe t n) w)"

definition subscription_Cancel :: "env \<Rightarrow> subscription \<Rightarrow> world \<Rightarrow> error option \<times> world" where
  "subscription_Cancel env s w = (Cancel_result env (calls w) s, called (Call_Cancel s) w)"

definition bus_Publish :: "env \<Rightarrow> topic \<Rightarrow> event \<Rightarrow> world \<Rightarrow> error option \<times> world" where
  "bus_Publish env t p w = (Publish_result env (calls w) t p, called (Call_Publish t p) w)"

definition store_GetFailingKeepalives ::
  "env \<Rightarrow> Context \<Rightarrow> world \<Rightarrow> (error + keepalive_record list) \<times> world" where
  "store_GetFailingKeepalives env ctx w =
     (GetFailingKeepalives_result env (calls w) ctx, called (Call_GetFailingKeepalives ctx) w)"

definition store_GetEventByEntityCheck ::
  "env \<Rightarrow> Context \<Rightarrow> string \<Rightarrow> string \<Rightarrow> world \<Rightarrow> (error + event option) \<times> world" where
  "store_GetEventByEntityCheck env ctx i c w =
     (GetEventByEntityCheck_result env (calls w) ctx i c,
      called (Call_GetEventByEntityCheck ctx i c) w)"

definition store_GetEntityByID ::
  "env \<Rightarrow> Context \<Rightarrow> string \<Rightarrow> world \<Rightarrow> (error + entity option) \<times> world" where
  "store_GetEntityByID env ctx i w =
     (GetEntityByID_result env (calls w) ctx i, called (Call_GetEntityByID ctx i) w)"

definition store_UpdateEntity :: "env \<Rightarrow> Context \<Rightarrow> entity \<Rightarrow> world \<Rightarrow> error option \<times> world" where
  "store_UpdateEntity env ctx e w =
     (UpdateEntity_result env (calls w) ctx e, called (Call_UpdateEntity ctx e) w)"

definition store_DeleteFailingKeepalive ::
  "env \<Rightarrow> Context \<Rightarrow> entity \<Rightarrow> world \<Rightarrow> error option \<times> world" where
  "store_DeleteFailingKeepalive env ctx e w =
     (DeleteFailingKeepalive_result env (calls w) ctx e,
      called (Call_DeleteFailingKeepalive ctx e) w)"

definition store_UpdateFailingKeepalive ::
  "env \<Rightarrow> Context \<Rightarrow> entity \<Rightarrow> int64 \<Rightarrow> world \<Rightarrow> error option \<times> world" where
  "store_UpdateFailingKeepalive env ctx e t w =
     (UpdateFailingKeepalive_result env (calls w) ctx e t,
      called (Call_UpdateFailingKeepalive ctx e t) w)"

text \<open>
  Modelled from the spec: the factory and the methods of the \<^verbatim>\<open>monitor\<close> package,
  which is not among the source files. The factory makes a new monitor with the timeout
  it is given, not stopped; \<^verbatim>\<open>GetTimeout\<close> returns the configured timeout;
  \<^verbatim>\<open>Stop\<close> marks the monitor stopped. The event argument of the factory is nil at
  both call sites, and both handlers are the daemon itself. What \<^verbatim>\<open>HandleUpdate\<close>
  of a monitor does is left open: the call is logged and its result is a parameter.
\<close>

definition monitorFactory :: "entity option \<Rightarrow> Duration \<Rightarrow> world \<Rightarrow> monitor \<times> world" where
  "monitorFactory e t w =
     (\<lparr>mon_id = next_monitor w, mon_timeout = t, mon_stopped = False\<rparr>,
      called (Call_MonitorFactory e t) (w\<lparr>next_monitor := Suc (next_monitor w)\<rparr>))"

definition IsStopped :: "monitor \<Rightarrow> bool" where
  "IsStopped m = mon_stopped m"

definition GetTimeout :: "monitor \<Rightarrow> Duration" where
  "GetTimeout m = mon_timeout m"

definition monitor_Stop :: "monitor \<Rightarrow> world \<Rightarrow> monitor \<times> world" where
  "monitor_Stop m w = (m\<lparr>mon_stopped := True\<rparr>, called (Call_MonitorStop (mon_id m)) w)"

definition monitor_HandleUpdate :: "env \<Rightarrow> monitor \<Rightarrow> event \<Rightarrow> world \<Rightarrow> error option \<times> world" where
  "monitor_HandleUpdate env m e w =
     (MonitorHandleUpdate_result env (calls w) (mon_id m) e,
      called (Call_MonitorHandleUpdate (mon_id m) e) w)"

text \<open>
  \<^verbatim>\<open>Deregistration.Deregister\<close>, on a Deregistrar made of the store and the bus of
  the daemon: the call is logged and its result is a parameter.
\<close>

definition Deregistration_Deregister :: "env \<Rightarrow> entity \<Rightarrow> world \<Rightarrow> error option \<times> world" where
  "Deregistration_Deregister env e w =
     (Deregister_result env (calls w) e, called (Call_Deregister e) w)"

subsection \<open>The daemon\<close>

definition DefaultHandlerCount :: int where
  "DefaultHandlerCount = 10"

definition DefaultKeepaliveTimeout :: nat where
  "DefaultKeepaliveTimeout = 120"

definition KeepaliveCheckName :: string where
  "KeepaliveCheckName = ''keepalive''"

definition KeepaliveHandlerName :: string where
  "KeepaliveHandlerName = ''keepalive''"

definition RegistrationCheckName :: string where
  "RegistrationCheckName = ''registration''"

definition RegistrationHandlerName :: string where
  "RegistrationHandlerName = ''registration''"

text \<open>\<^verbatim>\<open>types.EntityAgentClass\<close>, a constant of the \<^verbatim>\<open>types\<close> package.\<close>

definition EntityAgentClass :: string where
  "EntityAgentClass = ''agent''"

text \<open>
  What arrives on the keepalive channel, an \<^verbatim>\<open>interface{}\<close>: a pointer to an event, a
  nil pointer of the type \<^verbatim>\<open>*types.Event\<close>, or a value of any other type.
\<close>

datatype message = Msg_Event event | Msg_NilEvent | Msg_Other

text \<open>A buffered channel: what is in its buffer, its capacity, and whether it is closed.\<close>

record 'a chan =
  chan_buffer :: "'a list"
  chan_capacity :: nat
  chan_closed :: bool

definition make_chan :: "nat \<Rightarrow> 'a chan" where
  "make_chan n = \<lparr>chan_buffer = [], chan_capacity = n, chan_closed = False\<rparr>"

text \<open>
  The \<^verbatim>\<open>Keepalived\<close> struct. The store and the bus are the environment; the mutex is
  not a field here: a section it guards is one step. \<open>monitors\<close> is the Go map, as
  an association list with one entry for each key. \<open>wg\<close> is the counter of the
  WaitGroup, \<open>None\<close> while the pointer is nil.
\<close>

record keepalived =
  handlerCount :: int
  deregistrationHandler :: string
  monitors :: "(string \<times> monitor) list"
  wg :: "nat option"
  keepaliveChan :: "message chan"
  subscription :: "subscription option"
  errChan :: "error chan"

record Config =
  DeregistrationHandler :: string

fun apply_options ::
  "(keepalived \<Rightarrow> error + keepalived) list \<Rightarrow> keepalived \<Rightarrow> error + keepalived" where
  "apply_options [] k = Inr k"
| "apply_options (o1 # os) k =
     (case o1 k of Inl err \<Rightarrow> Inl err | Inr k' \<Rightarrow> apply_options os k')"

definition New :: "Config \<Rightarrow> (keepalived \<Rightarrow> error + keepalived) list \<Rightarrow> error + keepalived" where
  "New c opts =
     apply_options opts
       \<lparr>handlerCount = DefaultHandlerCount,
        deregistrationHandler = DeregistrationHandler c,
        monitors = [],
        wg = None,
        keepaliveChan = make_chan 10,
        subscription = None,
        errChan = make_chan 1\<rparr>"

definition createKeepaliveEvent :: "entity \<Rightarrow> world \<Rightarrow> event \<times> world" where
  "createKeepaliveEvent e w =
     (let keepaliveCheck =
            \<lparr>Name = KeepaliveCheckName,
             Interval = KeepaliveTimeout e,
             Handlers = [KeepaliveHandlerName],
             Check_Environment = Environment e,
             Check_Organization = Organization e,
             Status = 1\<rparr>;
          (now, w') = time_Now_Unix w
      in (\<lparr>Timestamp = now, Entity = Some e, Check = Some keepaliveCheck\<rparr>, w'))"

definition createRegistrationEvent :: "entity \<Rightarrow> world \<Rightarrow> event \<times> world" where
  "createRegistrationEvent e w =
     (let registrationCheck =
            \<lparr>Name = RegistrationCheckName,
             Interval = KeepaliveTimeout e,
             Handlers = [RegistrationHandlerName],
             Check_Environment = Environment e,
             Check_Organization = Organization e,
             Status = 1\<rparr>;
          (now, w') = time_Now_Unix w
      in (\<lparr>Timestamp = now, Entity = Some e, Check = Some registrationCheck\<rparr>, w'))"

text \<open>\<^verbatim>\<open>event.Check.Status = s\<close> on the event just created, whose check is not nil.\<close>

definition set_Check_Status :: "32 word \<Rightarrow> event \<Rightarrow> event" where
  "set_Check_Status s e = e\<lparr>Check := map_option (\<lambda>c. c\<lparr>Status := s\<rparr>) (Check e)\<rparr>"

text \<open>
  \<^verbatim>\<open>HandleUpdate\<close>. The entity is a pointer shared with the event: the result gives
  the event as it is after the call, with the entity the call may have written to. On
  an event with a nil entity the call dereferences nil: the getters of the \<^verbatim>\<open>types\<close>
  package read a field of their receiver, and the body writes \<^verbatim>\<open>LastSeen\<close>.
\<close>

definition HandleUpdate ::
  "env \<Rightarrow> event \<Rightarrow> world \<Rightarrow> error option outcome \<times> event \<times> world" where
  "HandleUpdate env e w =
     (case Entity e of
        None \<Rightarrow> (Panicked, e, w)
      | Some entity \<Rightarrow>
          (let ctx = SetContextFromResource entity;
               (r1, w1) = store_DeleteFailingKeepalive env ctx entity w
           in case r1 of
                Some err \<Rightarrow> (Returned (Some err), e, w1)
              | None \<Rightarrow>
                  (let entity' = entity\<lparr>LastSeen := Timestamp e\<rparr>;
                       e' = e\<lparr>Entity := Some entity'\<rparr>;
                       (r2, w2) = store_UpdateEntity env ctx entity' w1
                   in case r2 of
                        Some err \<Rightarrow>
                          (Returned (Some err), e',
                           logger_Error ''error updating entity in store'' w2)
                      | None \<Rightarrow>
                          (let (ev, w3) = createKeepaliveEvent entity' w2;
                               ev' = set_Check_Status 0 ev;
                               (r3, w4) = bus_Publish env TopicEventRaw ev' w3
                           in (Returned r3, e', w4)))))"

text \<open>
  \<^verbatim>\<open>HandleFailure\<close>; the event parameter is not used. The entity pointer is not nil
  where a monitor calls back with the entity it was made for.
\<close>

definition HandleFailure ::
  "env \<Rightarrow> keepalived \<Rightarrow> entity \<Rightarrow> event option \<Rightarrow> world \<Rightarrow> error option \<times> world" where
  "HandleFailure env k entity unused w =
     (let ctx = SetContextFromResource entity
      in if Deregister entity then Deregistration_Deregister env entity w
         else
           (let (ev, w1) = createKeepaliveEvent entity w;
                ev' = set_Check_Status 1 ev;
                (r1, w2) = bus_Publish env TopicEventRaw ev' w1
            in case r1 of
                 Some err \<Rightarrow> (Some err, w2)
               | None \<Rightarrow>
                   (let w3 = logger_Info
                               ''keepalive timed out, creating keepalive event for entity'' w2;
                        (now, w4) = time_Now_Unix w3;
                        timeout = now + ucast (KeepaliveTimeout entity)
                    in store_UpdateFailingKeepalive env ctx entity timeout w4)))"

definition handleEntityRegistration :: "env \<Rightarrow> entity \<Rightarrow> world \<Rightarrow> error option \<times> world" where
  "handleEntityRegistration env entity w =
     (if Class entity \<noteq> EntityAgentClass then (None, w)
      else
        (let ctx = SetContextFromResource entity;
             (r, w1) = store_GetEntityByID env ctx (ID entity) w
         in case r of
              Inl err \<Rightarrow> (Some err, w1)
            | Inr (Some fetchedEntity) \<Rightarrow> (None, w1)
            | Inr None \<Rightarrow>
                (let (ev, w2) = createRegistrationEvent entity w1
                 in bus_Publish env TopicEvent ev w2)))"

text \<open>
  The section of \<^verbatim>\<open>processKeepalives\<close> between \<^verbatim>\<open>k.mu.Lock()\<close> and
  \<^verbatim>\<open>k.mu.Unlock()\<close>: the monitor of the entity is looked up, made if there is none
  or if it is stopped, and made again if its timeout is not the one of the entity. The
  two tests follow one another as in the source; the second one reads the monitor the
  first one may have made. The result is the monitor chosen, \<^verbatim>\<open>mon\<close>.
\<close>

definition syncMonitors :: "entity \<Rightarrow> keepalived \<Rightarrow> world \<Rightarrow> monitor \<times> keepalived \<times> world" where
  "syncMonitors entity k w =
     (let timeout = ucast (KeepaliveTimeout entity) * Second;
          create = (let (mon, w') = monitorFactory (Some entity) timeout w
                    in (mon, k\<lparr>monitors := AList.update (ID entity) mon (monitors k)\<rparr>, w'));
          (mon1, k1, w1) =
            (case map_of (monitors k) (ID entity) of
               None \<Rightarrow> create
             | Some mon \<Rightarrow> if IsStopped mon then create else (mon, k, w))
      in if GetTimeout mon1 \<noteq> timeout then
           (let (old, w2) = monitor_Stop mon1 w1;
                (mon2, w3) = monitorFactory (Some entity) timeout w2
            in (mon2, k1\<lparr>monitors := AList.update (ID entity) mon2 (monitors k1)\<rparr>, w3))
         else (mon1, k1, w1))"

text \<open>
  One turn of the loop of \<^verbatim>\<open>processKeepalives\<close>, on the message received; a turn
  ends by \<^verbatim>\<open>continue\<close> or at the end of the body (\<open>Returned ()\<close>), or it panics:
  a nil pointer of the type \<^verbatim>\<open>*types.Event\<close> passes the type assertion, and reading
  its \<^verbatim>\<open>Entity\<close> dereferences nil.
\<close>

definition processKeepalive ::
  "env \<Rightarrow> message \<Rightarrow> keepalived \<Rightarrow> world \<Rightarrow> unit outcome \<times> keepalived \<times> world" where
  "processKeepalive env msg k w =
     (case msg of
        Msg_Other \<Rightarrow>
          (Returned (), k, logger_Error ''keepalived received non-Event on keepalive channel'' w)
      | Msg_NilEvent \<Rightarrow> (Panicked, k, w)
      | Msg_Event ev \<Rightarrow>
          (case Entity ev of
             None \<Rightarrow> (Returned (), k, logger_Error ''received keepalive with nil entity'' w)
           | Some entity \<Rightarrow>
               (case Validate env entity of
                  Some err \<Rightarrow> (Returned (), k, logger_Error ''invalid keepalive event'' w)
                | None \<Rightarrow>
                    (let (r, w1) = handleEntityRegistration env entity w;
                         w2 = (case r of
                                 Some err \<Rightarrow>
                                   logger_Error ''error handling entity registration'' w1
                               | None \<Rightarrow> w1);
                         (mon, k', w3) = syncMonitors entity k w2;
                         (r', w4) = monitor_HandleUpdate env mon ev w3
                     in case r' of
                          Some err \<Rightarrow>
                            (Returned (), k', logger_Error ''error monitoring entity'' w4)
                        | None \<Rightarrow> (Returned (), k', w4)))))"

text \<open>
  The loop of \<^verbatim>\<open>processKeepalives\<close> over what is left in the channel once it is
  closed: the workers receive every buffered message and then leave the loop. The turns
  of the workers are taken one after the other. A panic in a worker ends the process.
\<close>

fun processKeepalives ::
  "env \<Rightarrow> message list \<Rightarrow> keepalived \<Rightarrow> world \<Rightarrow> unit outcome \<times> keepalived \<times> world" where
  "processKeepalives env [] k w = (Returned (), k, w)"
| "processKeepalives env (msg # msgs) k w =
     (case processKeepalive env msg
             (k\<lparr>keepaliveChan := (keepaliveChan k)\<lparr>chan_buffer := msgs\<rparr>\<rparr>) w of
        (Panicked, k', w') \<Rightarrow> (Panicked, k', w')
      | (Returned u, k', w') \<Rightarrow> processKeepalives env msgs k' w')"

text \<open>The loop of \<^verbatim>\<open>initFromStore\<close> over the failing keepalive records.\<close>

fun initFromStore_loop ::
  "env \<Rightarrow> keepalive_record list \<Rightarrow> keepalived \<Rightarrow> world \<Rightarrow>
   error option outcome \<times> keepalived \<times> world" where
  "initFromStore_loop env [] k w = (Returned None, k, w)"
| "initFromStore_loop env (keepalive # rest) k w =
     (let entityCtx = \<lparr>ctx_Organization = Some (Record_Organization keepalive),
                       ctx_Environment = Some (Record_Environment keepalive)\<rparr>;
          (r, w1) = store_GetEventByEntityCheck env entityCtx (EntityID keepalive) ''keepalive'' w
      in case r of
           Inl err \<Rightarrow> (Returned (Some err), k, w1)
         | Inr None \<Rightarrow> initFromStore_loop env rest k w1
         | Inr (Some ev) \<Rightarrow>
             (case Check ev of
                None \<Rightarrow> (Panicked, k, w1)
              | Some c \<Rightarrow>
                  if Status c = 0 then initFromStore_loop env rest k w1
                  else
                    (let (now, w2) = time_Now_Unix w1;
                         d = Time keepalive - now;
                         d' = (if sint d < 0 then 0 else d);
                         (mon, w3) = monitorFactory (Entity ev) d' w2
                     in initFromStore_loop env rest
                          (k\<lparr>monitors := AList.update (EntityID keepalive) mon (monitors k)\<rparr>) w3)))"

definition initFromStore ::
  "env \<Rightarrow> keepalived \<Rightarrow> world \<Rightarrow> error option outcome \<times> keepalived \<times> world" where
  "initFromStore env k w =
     (let (r, w1) = store_GetFailingKeepalives env context_TODO w
      in case r of
           Inl err \<Rightarrow> (Returned (Some err), k, w1)
         | Inr keepalives \<Rightarrow> initFromStore_loop env keepalives k w1)"

fun go_times :: "nat \<Rightarrow> goroutine \<Rightarrow> world \<Rightarrow> world" where
  "go_times 0 g w = w"
| "go_times (Suc n) g w = go_times n g (go g w)"

text \<open>
  \<^verbatim>\<open>startWorkers\<close>: \<^verbatim>\<open>WaitGroup.Add\<close> panics on a counter that would be negative.
\<close>

definition startWorkers :: "keepalived \<Rightarrow> world \<Rightarrow> unit outcome \<times> keepalived \<times> world" where
  "startWorkers k w =
     (if handlerCount k < 0 then (Panicked, k\<lparr>wg := Some 0\<rparr>, w)
      else (Returned (), k\<lparr>wg := Some (nat (handlerCount k))\<rparr>,
            go_times (nat (handlerCount k)) Go_processKeepalives w))"

definition startMonitorSweeper :: "keepalived \<Rightarrow> world \<Rightarrow> world" where
  "startMonitorSweeper k w = go Go_MonitorSweeper w"

text \<open>One tick of the sweeper: the entries whose monitor is stopped are deleted.\<close>

definition sweep :: "keepalived \<Rightarrow> keepalived" where
  "sweep k = k\<lparr>monitors := filter (\<lambda>(key, mon). \<not> IsStopped mon) (monitors k)\<rparr>"

definition Start :: "env \<Rightarrow> keepalived \<Rightarrow> world \<Rightarrow> error option outcome \<times> keepalived \<times> world" where
  "Start env k w =
     (let (r, w1) = bus_Subscribe env TopicKeepalive ''keepalived'' w
      in case r of
           Inl err \<Rightarrow> (Returned (Some err), k, w1)
         | Inr sub \<Rightarrow>
             (let k1 = k\<lparr>subscription := Some sub\<rparr>;
                  (r2, k2, w2) = initFromStore env k1 w1
              in case r2 of
                   Panicked \<Rightarrow> (Panicked, k2, w2)
                 | Returned (Some err) \<Rightarrow>
                     (let (r3, w3) = subscription_Cancel env sub w2;
                          w4 = (case r3 of
                                  Some err' \<Rightarrow>
                                    logger_Error ''unable to unsubscribe from message bus'' w3
                                | None \<Rightarrow> w3)
                      in (Returned (Some err), k2, w4))
                 | Returned None \<Rightarrow>
                     (case startWorkers k2 w2 of
                        (Panicked, k3, w3) \<Rightarrow> (Panicked, k3, w3)
                      | (Returned u, k3, w3) \<Rightarrow>
                          (Returned None, k3, startMonitorSweeper k3 w3))))"

text \<open>
  \<^verbatim>\<open>k.wg.Wait()\<close> in \<^verbatim>\<open>Stop\<close>, once the channel is closed: it returns when every
  worker has left its loop, that is when the buffer of the channel is empty and each
  worker has called \<^verbatim>\<open>Done\<close>. With no worker it returns at once. Its return is
  logged. If a worker panics the process ends, and \<^verbatim>\<open>Wait\<close> does not return.
\<close>

definition wg_Wait ::
  "env \<Rightarrow> nat \<Rightarrow> keepalived \<Rightarrow> world \<Rightarrow> unit outcome \<times> keepalived \<times> world" where
  "wg_Wait env n k w =
     (if n = 0 then (Returned (), k, called Call_wg_Wait w)
      else
        (case processKeepalives env (chan_buffer (keepaliveChan k)) k w of
           (Panicked, k', w') \<Rightarrow> (Panicked, k', w')
         | (Returned u, k', w') \<Rightarrow> (Returned (), k'\<lparr>wg := Some 0\<rparr>, called Call_wg_Wait w')))"

fun go_Stop_monitors :: "(string \<times> monitor) list \<Rightarrow> world \<Rightarrow> world" where
  "go_Stop_monitors [] w = w"
| "go_Stop_monitors ((key, mon) # ms) w = go_Stop_monitors ms (go (Go_MonitorStop (mon_id mon)) w)"

text \<open>
  \<^verbatim>\<open>Stop\<close>. A nil subscription or a nil WaitGroup (the daemon was not started) is
  dereferenced, and a channel that is closed already (the daemon was stopped before)
  cannot be closed again: these panic.
\<close>

definition Stop :: "env \<Rightarrow> keepalived \<Rightarrow> world \<Rightarrow> error option outcome \<times> keepalived \<times> world" where
  "Stop env k w =
     (case subscription k of
        None \<Rightarrow> (Panicked, k, w)
      | Some sub \<Rightarrow>
          (let (err, w1) = subscription_Cancel env sub w
           in if chan_closed (keepaliveChan k) then (Panicked, k, w1)
              else
                (let k1 = k\<lparr>keepaliveChan := (keepaliveChan k)\<lparr>chan_closed := True\<rparr>\<rparr>;
                     w1' = called Call_close_keepaliveChan w1
                 in case wg k1 of
                      None \<Rightarrow> (Panicked, k1, w1')
                    | Some n \<Rightarrow>
                        (case wg_Wait env n k1 w1' of
                           (Panicked, k2, w2) \<Rightarrow> (Panicked, k2, w2)
                         | (Returned u, k2, w2) \<Rightarrow>
                             (let w3 = go_Stop_monitors (monitors k2) w2
                              in if chan_closed (errChan k2) then (Panicked, k2, w3)
                                 else (Returned err,
                                       k2\<lparr>errChan := (errChan k2)\<lparr>chan_closed := True\<rparr>\<rparr>,
                                       called Call_close_errChan w3))))))"

definition Keepalived_Status :: "keepalived \<Rightarrow> error option" where
  "Keepalived_Status k = None"

subsection \<open>Reading the log\<close>

definition is_Publish :: "call \<Rightarrow> bool" where
  "is_Publish c = (case c of Call_Publish t e \<Rightarrow> True | _ \<Rightarrow> False)"

definition is_UpdateFailingKeepalive :: "call \<Rightarrow> bool" where
  "is_UpdateFailingKeepalive c =
     (case c of Call_UpdateFailingKeepalive ctx e t \<Rightarrow> True | _ \<Rightarrow> False)"

definition is_Deregister :: "call \<Rightarrow> bool" where
  "is_Deregister c = (case c of Call_Deregister e \<Rightarrow> True | _ \<Rightarrow> False)"

text \<open>The events published on a topic, in the order of the log.\<close>

definition published_on :: "topic \<Rightarrow> call list \<Rightarrow> event list" where
  "published_on t cs =
     concat (map (\<lambda>c. case c of Call_Publish t' e \<Rightarrow> if t' = t then [e] else [] | _ \<Rightarrow> []) cs)"

subsection \<open>Concrete inputs\<close>

text \<open>
  Collaborators that accept every call: the store holds no entity, no event and no
  failing keepalive; an entity is valid when its ID is not empty.
\<close>

definition env_ok :: env where
  "env_ok =
     \<lparr>Validate = (\<lambda>e. if ID e = [] then Some (Error ''entity id must not be empty'') else None),
      Subscribe_result = (\<lambda>h t n. Inr (Subscription t n)),
      Cancel_result = (\<lambda>h s. None),
      Publish_result = (\<lambda>h t e. None),
      GetFailingKeepalives_result = (\<lambda>h c. Inr []),
      GetEventByEntityCheck_result = (\<lambda>h c i n. Inr None),
      GetEntityByID_result = (\<lambda>h c i. Inr None),
      UpdateEntity_result = (\<lambda>h c e. None),
      DeleteFailingKeepalive_result = (\<lambda>h c e. None),
      UpdateFailingKeepalive_result = (\<lambda>h c e t. None),
      MonitorHandleUpdate_result = (\<lambda>h i e. None),
      Deregister_result = (\<lambda>h e. None)\<rparr>"

definition entity_a1 :: entity where
  "entity_a1 =
     \<lparr>ID = ''a1'', Class = ''agent'', Organization = ''o'', Environment = ''e'',
      KeepaliveTimeout = 30, Deregister = False, LastSeen = 0\<rparr>"

definition entity_a2 :: entity where
  "entity_a2 =
     \<lparr>ID = ''a2'', Class = ''agent'', Organization = ''o'', Environment = ''e'',
      KeepaliveTimeout = 30, Deregister = True, LastSeen = 0\<rparr>"

definition entity_p1 :: entity where
  "entity_p1 =
     \<lparr>ID = ''p1'', Class = ''proxy'', Organization = ''o'', Environment = ''e'',
      KeepaliveTimeout = 30, Deregister = False, LastSeen = 0\<rparr>"

definition event_a1 :: event where
  "event_a1 = \<lparr>Timestamp = 1000, Entity = Some entity_a1, Check = None\<rparr>"

text \<open>A world where nothing has happened yet and every reading of the clock is 1000.\<close>

definition world0 :: world where
  "world0 = \<lparr>calls = [], logs = [], spawned = [], clock = (\<lambda>n. 1000), clock_reads = 0,
             next_monitor = 0\<rparr>"

text \<open>The daemon as \<^verbatim>\<open>New\<close> makes it, with no option.\<close>

definition keepalived0 :: keepalived where
  "keepalived0 =
     \<lparr>handlerCount = 10, deregistrationHandler = ''deregistration'', monitors = [], wg = None,
      keepaliveChan = \<lparr>chan_buffer = [], chan_capacity = 10, chan_closed = False\<rparr>,
      subscription = None,
      errChan = \<lparr>chan_buffer = [], chan_capacity = 1, chan_closed = False\<rparr>\<rparr>"

text \<open>
  The failing keepalive record of \<open>a1\<close>, due at 1005, and the keepalive event the
  store holds for \<open>a1\<close>, which is failing.
\<close>

definition record_a1 :: keepalive_record where
  "record_a1 =
     \<lparr>Record_Environment = ''e'', Record_Organization = ''o'', EntityID = ''a1'', Time = 1005\<rparr>"

definition failing_event_a1 :: event where
  "failing_event_a1 =
     \<lparr>Timestamp = 975, Entity = Some entity_a1,
      Check = Some \<lparr>Name = ''keepalive'', Interval = 30, Handlers = [''keepalive''],
                    Check_Environment = ''e'', Check_Organization = ''o'', Status = 1\<rparr>\<rparr>"

definition env_failing_a1 :: env where
  "env_failing_a1 =
     env_ok\<lparr>GetFailingKeepalives_result := (\<lambda>h c. Inr [record_a1]),
            GetEventByEntityCheck_result := (\<lambda>h c i n. Inr (Some failing_event_a1))\<rparr>"

text \<open>
  The daemon with a monitor for \<open>a1\<close> that is not stopped and has a timeout of 60
  seconds, in a world where one monitor has been made.
\<close>

definition monitor_a1_60 :: monitor where
  "monitor_a1_60 = \<lparr>mon_id = 0, mon_timeout = 60000000000, mon_stopped = False\<rparr>"

definition keepalived_a1_60 :: keepalived where
  "keepalived_a1_60 = keepalived0\<lparr>monitors := [(''a1'', monitor_a1_60)]\<rparr>"

definition world1 :: world where
  "world1 = world0\<lparr>next_monitor := 1\<rparr>"

text \<open>
  The daemon and the world once \<^verbatim>\<open>Start\<close> has returned nil, and then once
  \<^verbatim>\<open>Stop\<close> has returned nil.
\<close>

definition keepalived_started :: keepalived where
  "keepalived_started =
     keepalived0\<lparr>wg := Some 10, subscription := Some (Subscription TopicKeepalive ''keepalived'')\<rparr>"

definition world_started :: world where
  "world_started =
     world0\<lparr>calls := [Call_Subscribe TopicKeepalive ''keepalived'',
                      Call_GetFailingKeepalives context_TODO]
                     @ replicate 10 (Call_go Go_processKeepalives) @ [Call_go Go_MonitorSweeper],
            spawned := replicate 10 Go_processKeepalives @ [Go_MonitorSweeper]\<rparr>"

definition keepalived_stopped :: keepalived where
  "keepalived_stopped =
     keepalived_started
       \<lparr>wg := Some 0,
        keepaliveChan := \<lparr>chan_buffer = [], chan_capacity = 10, chan_closed = True\<rparr>,
        errChan := \<lparr>chan_buffer = [], chan_capacity = 1, chan_closed = True\<rparr>\<rparr>"

definition world_stopped :: world where
  "world_stopped =
     world_started
       \<lparr>calls := calls world_started
                  @ [Call_Cancel (Subscription TopicKeepalive ''keepalived''),
                     Call_close_keepaliveChan, Call_wg_Wait, Call_close_errChan]\<rparr>"

text \<open>
  The started daemon when the channel holds a nil pointer of the type
  \<^verbatim>\<open>*types.Event\<close>.
\<close>

definition keepalived_nil_pending :: keepalived where
  "keepalived_nil_pending =
     keepalived_started
       \<lparr>keepaliveChan := \<lparr>chan_buffer = [Msg_NilEvent], chan_capacity = 10, chan_closed = False\<rparr>\<rparr>"

text \<open>
  The started daemon when its registry holds the monitor of \<open>a1\<close> with a timeout of
  60 seconds and the channel holds a keepalive event of \<open>a1\<close>, whose timeout is 30
  seconds; and a bus that refuses to cancel.
\<close>

definition keepalived_busy :: keepalived where
  "keepalived_busy =
     keepalived_started
       \<lparr>monitors := [(''a1'', monitor_a1_60)],
        keepaliveChan := \<lparr>chan_buffer = [Msg_Event event_a1], chan_capacity = 10,
                          chan_closed = False\<rparr>\<rparr>"

definition env_cancel_fails :: env where
  "env_cancel_fails = env_ok\<lparr>Cancel_result := (\<lambda>h s. Some (Error ''bus closed''))\<rparr>"

subsection \<open>The states of the daemon\<close>

text \<open>
  The daemon is running: \<^verbatim>\<open>Start\<close> has given it a subscription and a WaitGroup, and its
  two channels are open, as \<^verbatim>\<open>New\<close> made them and as they are until \<^verbatim>\<open>Stop\<close>
  closes them.
\<close>

definition running :: "keepalived \<Rightarrow> bool" where
  "running k \<longleftrightarrow>
     subscription k \<noteq> None \<and> wg k \<noteq> None
     \<and> \<not> chan_closed (keepaliveChan k) \<and> \<not> chan_closed (errChan k)"

section \<open>Properties\<close>

subsection \<open>Helper lemmas\<close>

lemma published_on_append [simp]:
  "published_on t (xs @ ys) = published_on t xs @ published_on t ys"
  by (simp add: published_on_def)

lemma published_on_Nil [simp]: "published_on t [] = []"
  by (simp add: published_on_def)

lemma published_on_Cons:
  "published_on t (c # cs) =
     (case c of Call_Publish t' e \<Rightarrow> if t' = t then [e] else [] | _ \<Rightarrow> []) @ published_on t cs"
  by (simp add: published_on_def)

lemmas collaborator_defs =
  bus_Subscribe_def subscription_Cancel_def bus_Publish_def store_GetFailingKeepalives_def
  store_GetEventByEntityCheck_def store_GetEntityByID_def store_UpdateEntity_def
  store_DeleteFailingKeepalive_def store_UpdateFailingKeepalive_def monitorFactory_def
  monitor_Stop_def monitor_HandleUpdate_def Deregistration_Deregister_def IsStopped_def
  GetTimeout_def called_def logger_Error_def logger_Info_def go_def time_Now_Unix_def

lemmas input_defs =
  env_ok_def entity_a1_def entity_a2_def entity_p1_def event_a1_def world0_def keepalived0_def
  record_a1_def failing_event_a1_def env_failing_a1_def monitor_a1_60_def
  keepalived_a1_60_def world1_def keepalived_started_def world_started_def
  keepalived_stopped_def world_stopped_def keepalived_nil_pending_def keepalived_busy_def
  env_cancel_fails_def

lemma sint_ucast_32_64: "sint (ucast (kt :: uint32) :: int64) = uint kt"
proof -
  have "uint kt < 2 ^ 32" using uint_bounded[of kt] by simp
  then have lt: "uint kt < 2 ^ 63" by simp
  have ge: "- (2 ^ 63) \<le> uint kt" by (rule order_trans[of _ 0]) simp_all
  have "signed_take_bit 63 (uint kt) = uint kt"
    using ge lt by (rule signed_take_bit_int_eq_self)
  then show ?thesis
    by (simp add: signed_ucast_eq)
qed

lemma seconds_no_overflow:
  "sint (ucast (kt :: uint32) * Second) = uint kt * 1000000000"
proof -
  have b: "uint kt < 2 ^ 32" using uint_bounded[of kt] by simp
  have lt: "uint kt * 1000000000 < 2 ^ 63" using b by simp
  have ge: "- (2 ^ 63) \<le> uint kt * 1000000000" by (rule order_trans[of _ 0]) simp_all
  have "sint (ucast kt * (1000000000 :: int64))
        = signed_take_bit 63 (sint (ucast kt :: int64) * sint (1000000000 :: int64))"
    by (simp add: sint_word_ariths)
  also have "\<dots> = signed_take_bit 63 (uint kt * 1000000000)"
    by (simp add: sint_ucast_32_64)
  also have "\<dots> = uint kt * 1000000000"
    using ge lt by (rule signed_take_bit_int_eq_self)
  finally show ?thesis by (simp add: Second_def)
qed

lemma sint_add_ucast:
  fixes now :: int64 and kt :: uint32
  assumes "sint now + uint kt < 2 ^ 63"
  shows "sint (now + ucast kt) = sint now + uint kt"
proof -
  have "- (2 ^ 63) \<le> sint now" using sint_ge[of now] by simp
  then have ge: "- (2 ^ 63) \<le> sint now + uint kt"
    using uint_nonnegative[of kt] by linarith
  have "sint (now + ucast kt) = signed_take_bit 63 (sint now + sint (ucast kt :: int64))"
    by (simp add: sint_word_ariths)
  also have "\<dots> = signed_take_bit 63 (sint now + uint kt)"
    by (simp add: sint_ucast_32_64)
  also have "\<dots> = sint now + uint kt"
    using ge assms by (rule signed_take_bit_int_eq_self)
  finally show ?thesis .
qed

subsection \<open>The callbacks of the monitors\<close>

text \<open>
  C4. For every event with a non-nil entity, \<^verbatim>\<open>HandleUpdate\<close> first asks the store to
  delete the failing keepalive record of the entity; then it sets \<^verbatim>\<open>LastSeen\<close> of the
  entity to the timestamp of the event and asks the store to update the entity; then it
  publishes, on the raw-events topic, a keepalive event whose check has status 0, and
  returns what the bus returns. An error of the deletion or of the update is returned
  to the caller.
\<close>

theorem HandleUpdate_postcondition:
  assumes "Entity e = Some entity"
  shows "let ctx = SetContextFromResource entity;
             entity' = entity\<lparr>LastSeen := Timestamp e\<rparr>;
             del = Call_DeleteFailingKeepalive ctx entity;
             upd = Call_UpdateEntity ctx entity';
             ok = \<lparr>Timestamp = clock w (clock_reads w), Entity = Some entity',
                   Check = Some \<lparr>Name = ''keepalive'', Interval = KeepaliveTimeout entity,
                                 Handlers = [''keepalive''],
                                 Check_Environment = Environment entity,
                                 Check_Organization = Organization entity, Status = 0\<rparr>\<rparr>;
             pub = Call_Publish TopicEventRaw ok
         in (\<forall>err. DeleteFailingKeepalive_result env (calls w) ctx entity = Some err \<longrightarrow>
               fst (HandleUpdate env e w) = Returned (Some err))
          \<and> (DeleteFailingKeepalive_result env (calls w) ctx entity = None \<longrightarrow>
               (\<forall>err. UpdateEntity_result env (calls w @ [del]) ctx entity' = Some err \<longrightarrow>
                  HandleUpdate env e w =
                    (Returned (Some err), e\<lparr>Entity := Some entity'\<rparr>,
                     w\<lparr>calls := calls w @ [del, upd],
                       logs := logs w @ [''error updating entity in store'']\<rparr>))
             \<and> (UpdateEntity_result env (calls w @ [del]) ctx entity' = None \<longrightarrow>
                  HandleUpdate env e w =
                    (Returned (Publish_result env (calls w @ [del, upd]) TopicEventRaw ok),
                     e\<lparr>Entity := Some entity'\<rparr>,
                     w\<lparr>calls := calls w @ [del, upd, pub],
                       clock_reads := Suc (clock_reads w)\<rparr>)))"
  using assms
  by (simp add: HandleUpdate_def store_DeleteFailingKeepalive_def store_UpdateEntity_def
      bus_Publish_def called_def logger_Error_def createKeepaliveEvent_def time_Now_Unix_def
      set_Check_Status_def KeepaliveCheckName_def KeepaliveHandlerName_def Let_def)

theorem HandleUpdate_postcondition_witness:
  "Entity event_a1 = Some entity_a1
   \<and> DeleteFailingKeepalive_result env_ok (calls world0) (SetContextFromResource entity_a1)
        entity_a1 = None
   \<and> HandleUpdate env_ok event_a1 world0 =
       (Returned None,
        event_a1\<lparr>Entity := Some (entity_a1\<lparr>LastSeen := 1000\<rparr>)\<rparr>,
        world0\<lparr>calls :=
                 [Call_DeleteFailingKeepalive
                    \<lparr>ctx_Organization = Some ''o'', ctx_Environment = Some ''e''\<rparr> entity_a1,
                  Call_UpdateEntity
                    \<lparr>ctx_Organization = Some ''o'', ctx_Environment = Some ''e''\<rparr>
                    (entity_a1\<lparr>LastSeen := 1000\<rparr>),
                  Call_Publish TopicEventRaw
                    \<lparr>Timestamp = 1000, Entity = Some (entity_a1\<lparr>LastSeen := 1000\<rparr>),
                     Check = Some \<lparr>Name = ''keepalive'', Interval = 30,
                                   Handlers = [''keepalive''], Check_Environment = ''e'',
                                   Check_Organization = ''o'', Status = 0\<rparr>\<rparr>],
               clock_reads := 1\<rparr>)"
proof -
  have h: "Entity event_a1 = Some entity_a1"
    by (simp add: event_a1_def)
  show ?thesis
    using h HandleUpdate_postcondition [OF h, of world0 env_ok]
    by (simp add: Let_def input_defs SetContextFromResource_def)
qed

text \<open>
  C10. If the deletion of the failing keepalive record returns an error,
  \<^verbatim>\<open>HandleUpdate\<close> returns that error; the event and its entity are as they were
  (\<^verbatim>\<open>LastSeen\<close> is not written), and the only call made is the deletion: the store is
  not asked to update the entity and nothing is published. On an event with a nil entity
  no deletion is attempted at all.
\<close>

theorem HandleUpdate_early_error:
  "(Entity e = Some entity \<and>
    DeleteFailingKeepalive_result env (calls w) (SetContextFromResource entity) entity = Some err
    \<longrightarrow> HandleUpdate env e w =
          (Returned (Some err), e,
           w\<lparr>calls := calls w @
                [Call_DeleteFailingKeepalive (SetContextFromResource entity) entity]\<rparr>))
   \<and> (Entity e = None \<longrightarrow> HandleUpdate env e w = (Panicked, e, w))"
  by (simp add: HandleUpdate_def store_DeleteFailingKeepalive_def called_def)

theorem HandleUpdate_early_error_witness:
  "Entity event_a1 = Some entity_a1
   \<and> DeleteFailingKeepalive_result
        (env_ok\<lparr>DeleteFailingKeepalive_result := (\<lambda>h c e. Some (Error ''unavailable''))\<rparr>)
        (calls world0) (SetContextFromResource entity_a1) entity_a1 = Some (Error ''unavailable'')
   \<and> HandleUpdate
        (env_ok\<lparr>DeleteFailingKeepalive_result := (\<lambda>h c e. Some (Error ''unavailable''))\<rparr>)
        event_a1 world0 =
       (Returned (Some (Error ''unavailable'')), event_a1,
        world0\<lparr>calls :=
                 [Call_DeleteFailingKeepalive
                    \<lparr>ctx_Organization = Some ''o'', ctx_Environment = Some ''e''\<rparr> entity_a1]\<rparr>)"
  using HandleUpdate_early_error
          [of event_a1 entity_a1
              "env_ok\<lparr>DeleteFailingKeepalive_result := (\<lambda>h c e. Some (Error ''unavailable''))\<rparr>"
              world0 "Error ''unavailable''"]
  by (simp add: input_defs SetContextFromResource_def)

text \<open>
  C3. When the entity is to be deregistered, all \<^verbatim>\<open>HandleFailure\<close> does is one call
  of the Deregistrar, whose result it returns: the log grows by that call and nothing
  else changes, so \<^verbatim>\<open>HandleFailure\<close> publishes no event on any topic and writes no
  failing keepalive record.
\<close>

theorem HandleFailure_deregisters:
  assumes "Deregister entity"
  shows "\<exists>w'. HandleFailure env k entity unused w = (Deregister_result env (calls w) entity, w')
           \<and> w' = w\<lparr>calls := calls w @ [Call_Deregister entity]\<rparr>
           \<and> filter is_Deregister (calls w') =
               filter is_Deregister (calls w) @ [Call_Deregister entity]
           \<and> filter is_Publish (calls w') = filter is_Publish (calls w)
           \<and> filter is_UpdateFailingKeepalive (calls w') =
               filter is_UpdateFailingKeepalive (calls w)"
  using assms
  by (simp add: HandleFailure_def Deregistration_Deregister_def called_def is_Deregister_def
      is_Publish_def is_UpdateFailingKeepalive_def)

theorem HandleFailure_deregisters_witness:
  "Deregister entity_a2
   \<and> HandleFailure env_ok keepalived0 entity_a2 None world0 =
       (None, world0\<lparr>calls := [Call_Deregister entity_a2]\<rparr>)"
proof -
  have h: "Deregister entity_a2"
    by (simp add: entity_a2_def)
  show ?thesis
    using h HandleFailure_deregisters [OF h, of env_ok keepalived0 None world0]
    by (auto simp add: env_ok_def world0_def)
qed

text \<open>
  C5. When the entity is not to be deregistered, \<^verbatim>\<open>HandleFailure\<close> publishes on the
  raw-events topic an event whose check is named "keepalive", has status 1, the only
  handler "keepalive" and the keepalive timeout of the entity as its interval. If the
  bus returns an error, that error is returned and no failing keepalive record is
  written. Otherwise a failing keepalive record is written whose deadline is the time
  read after the publication plus the keepalive timeout, and what the store returns is
  returned. The sum is the \<^verbatim>\<open>int64\<close> one; it is the sum of the integers unless that
  is beyond the largest \<^verbatim>\<open>int64\<close>.
\<close>

theorem HandleFailure_publishes_then_records:
  assumes "\<not> Deregister entity"
  shows "let ctx = SetContextFromResource entity;
             ev = \<lparr>Timestamp = clock w (clock_reads w), Entity = Some entity,
                   Check = Some \<lparr>Name = ''keepalive'', Interval = KeepaliveTimeout entity,
                                 Handlers = [''keepalive''],
                                 Check_Environment = Environment entity,
                                 Check_Organization = Organization entity, Status = 1\<rparr>\<rparr>;
             pub = Call_Publish TopicEventRaw ev;
             now = clock w (Suc (clock_reads w));
             deadline = now + ucast (KeepaliveTimeout entity);
             upd = Call_UpdateFailingKeepalive ctx entity deadline
         in (\<forall>err. Publish_result env (calls w) TopicEventRaw ev = Some err \<longrightarrow>
               HandleFailure env k entity unused w =
                 (Some err, w\<lparr>calls := calls w @ [pub], clock_reads := Suc (clock_reads w)\<rparr>))
          \<and> (Publish_result env (calls w) TopicEventRaw ev = None \<longrightarrow>
               HandleFailure env k entity unused w =
                 (UpdateFailingKeepalive_result env (calls w @ [pub]) ctx entity deadline,
                  w\<lparr>calls := calls w @ [pub, upd],
                    logs := logs w @
                      [''keepalive timed out, creating keepalive event for entity''],
                    clock_reads := Suc (Suc (clock_reads w))\<rparr>))
          \<and> (sint now + uint (KeepaliveTimeout entity) < 2 ^ 63 \<longrightarrow>
               sint deadline = sint now + uint (KeepaliveTimeout entity))"
  using assms
  by (simp add: HandleFailure_def bus_Publish_def store_UpdateFailingKeepalive_def called_def
      logger_Info_def createKeepaliveEvent_def time_Now_Unix_def set_Check_Status_def
      KeepaliveCheckName_def KeepaliveHandlerName_def Let_def sint_add_ucast)

theorem HandleFailure_publishes_then_records_witness:
  "\<not> Deregister entity_a1
   \<and> HandleFailure env_ok keepalived0 entity_a1 None world0 =
       (None,
        world0\<lparr>calls :=
                 [Call_Publish TopicEventRaw
                    \<lparr>Timestamp = 1000, Entity = Some entity_a1,
                     Check = Some \<lparr>Name = ''keepalive'', Interval = 30,
                                   Handlers = [''keepalive''], Check_Environment = ''e'',
                                   Check_Organization = ''o'', Status = 1\<rparr>\<rparr>,
                  Call_UpdateFailingKeepalive
                    \<lparr>ctx_Organization = Some ''o'', ctx_Environment = Some ''e''\<rparr>
                    entity_a1 1030],
               logs := [''keepalive timed out, creating keepalive event for entity''],
               clock_reads := 2\<rparr>)"
proof -
  have h: "\<not> Deregister entity_a1"
    by (simp add: entity_a1_def)
  show ?thesis
    using h HandleFailure_publishes_then_records [OF h, of world0 env_ok keepalived0 None]
    by (simp add: Let_def input_defs SetContextFromResource_def)
qed

subsection \<open>The recovery from the store and the start\<close>

text \<open>
  C6. When the loop of \<^verbatim>\<open>initFromStore\<close> comes to a record for which the store holds
  no keepalive event, or holds one whose check has status 0, the turn for that record
  only looks the event up: no monitor is made, the daemon is as it was, and the loop
  goes on with the records that remain.
\<close>

theorem initFromStore_skips:
  assumes "ctx = \<lparr>ctx_Organization = Some (Record_Organization r),
                  ctx_Environment = Some (Record_Environment r)\<rparr>"
      and "GetEventByEntityCheck_result env (calls w) ctx (EntityID r) ''keepalive'' = Inr None
           \<or> (\<exists>ev c. GetEventByEntityCheck_result env (calls w) ctx (EntityID r) ''keepalive''
                        = Inr (Some ev) \<and> Check ev = Some c \<and> Status c = 0)"
  shows "initFromStore_loop env (r # rest) k w =
         initFromStore_loop env rest k
           (w\<lparr>calls := calls w @ [Call_GetEventByEntityCheck ctx (EntityID r) ''keepalive'']\<rparr>)"
  using assms
  by (auto simp add: store_GetEventByEntityCheck_def called_def)

theorem initFromStore_skips_witness:
  "GetEventByEntityCheck_result env_ok (calls world0)
      \<lparr>ctx_Organization = Some (Record_Organization record_a1),
       ctx_Environment = Some (Record_Environment record_a1)\<rparr>
      (EntityID record_a1) ''keepalive'' = Inr None
   \<and> initFromStore_loop env_ok [record_a1] keepalived0 world0 =
       (Returned None, keepalived0,
        world0\<lparr>calls :=
                 [Call_GetEventByEntityCheck
                    \<lparr>ctx_Organization = Some ''o'', ctx_Environment = Some ''e''\<rparr>
                    ''a1'' ''keepalive'']\<rparr>)"
proof -
  have h: "GetEventByEntityCheck_result env_ok (calls world0)
             \<lparr>ctx_Organization = Some (Record_Organization record_a1),
              ctx_Environment = Some (Record_Environment record_a1)\<rparr>
             (EntityID record_a1) ''keepalive'' = Inr None
           \<or> (\<exists>ev c. GetEventByEntityCheck_result env_ok (calls world0)
                 \<lparr>ctx_Organization = Some (Record_Organization record_a1),
                  ctx_Environment = Some (Record_Environment record_a1)\<rparr>
                 (EntityID record_a1) ''keepalive'' = Inr (Some ev)
                 \<and> Check ev = Some c \<and> Status c = 0)"
    by (simp add: env_ok_def)
  show ?thesis
    using initFromStore_skips [OF refl h, of "[]" keepalived0]
    by (simp add: env_ok_def world0_def record_a1_def)
qed

text \<open>What the loop does with a record whose keepalive event is failing.\<close>

lemma initFromStore_installs:
  assumes "ctx = \<lparr>ctx_Organization = Some (Record_Organization r),
                  ctx_Environment = Some (Record_Environment r)\<rparr>"
      and "GetEventByEntityCheck_result env (calls w) ctx (EntityID r) ''keepalive''
             = Inr (Some ev)"
      and "Check ev = Some c" and "Status c \<noteq> 0"
  shows "initFromStore_loop env (r # rest) k w =
     (let d = Time r - clock w (clock_reads w);
          d' = (if sint d < 0 then 0 else d);
          mon = \<lparr>mon_id = next_monitor w, mon_timeout = d', mon_stopped = False\<rparr>
      in initFromStore_loop env rest
           (k\<lparr>monitors := AList.update (EntityID r) mon (monitors k)\<rparr>)
           (w\<lparr>clock_reads := Suc (clock_reads w),
              next_monitor := Suc (next_monitor w),
              calls := calls w @ [Call_GetEventByEntityCheck ctx (EntityID r) ''keepalive'',
                                   Call_MonitorFactory (Entity ev) d']\<rparr>))"
  using assms
  by (simp add: store_GetEventByEntityCheck_def monitorFactory_def time_Now_Unix_def
      called_def Let_def)

text \<open>
  C2. What the code does with a record that is not skipped: the timeout given to the
  factory is the difference of the two counts of seconds, taken as a \<^verbatim>\<open>Duration\<close>,
  that is as a count of nanoseconds. For the record of \<open>a1\<close>, due 5 seconds after
  the time read, the monitor installed has a timeout of 5 nanoseconds, not of 5 seconds.
\<close>

theorem initFromStore_timeout_in_nanoseconds:
  "initFromStore env_failing_a1 keepalived0 world0 =
     (Returned None,
      keepalived0\<lparr>monitors := [(''a1'', \<lparr>mon_id = 0, mon_timeout = 5, mon_stopped = False\<rparr>)]\<rparr>,
      world0\<lparr>calls :=
               [Call_GetFailingKeepalives context_TODO,
                Call_GetEventByEntityCheck
                  \<lparr>ctx_Organization = Some ''o'', ctx_Environment = Some ''e''\<rparr>
                  ''a1'' ''keepalive'',
                Call_MonitorFactory (Some entity_a1) 5],
             clock_reads := 1, next_monitor := 1\<rparr>)
   \<and> Time record_a1 - clock world0 0 = 5
   \<and> (5 :: Duration) \<noteq> 5 * Second"
  by (simp add: initFromStore_def collaborator_defs input_defs Second_def)

lemma initFromStore_loop_frame:
  "initFromStore_loop env rs k w = (r, k', w') \<Longrightarrow>
     spawned w' = spawned w \<and> logs w' = logs w \<and> wg k' = wg k
     \<and> subscription k' = subscription k \<and> handlerCount k' = handlerCount k
     \<and> keepaliveChan k' = keepaliveChan k \<and> errChan k' = errChan k"
proof (induction rs arbitrary: k w)
  case Nil
  then show ?case by simp
next
  case (Cons a rs)
  then show ?case
    by (auto simp add: collaborator_defs Let_def
        split: sum.splits option.splits if_splits prod.splits)
qed

lemma initFromStore_frame:
  "initFromStore env k w = (r, k', w') \<Longrightarrow>
     spawned w' = spawned w \<and> logs w' = logs w \<and> wg k' = wg k
     \<and> subscription k' = subscription k \<and> handlerCount k' = handlerCount k
     \<and> keepaliveChan k' = keepaliveChan k \<and> errChan k' = errChan k"
  by (auto simp add: initFromStore_def store_GetFailingKeepalives_def called_def
      split: sum.splits dest: initFromStore_loop_frame)

text \<open>
  C7. If the bus refuses the subscription, \<^verbatim>\<open>Start\<close> returns the error of the bus and
  has done nothing but ask. If the recovery from the store returns an error,
  \<^verbatim>\<open>Start\<close> returns that error; the last call it has made is the cancellation of the
  subscription it had just obtained, no goroutine has been launched (neither a worker
  nor the sweeper) and the WaitGroup has not been made.
\<close>

theorem Start_failure_unwinding:
  "(\<forall>err. Subscribe_result env (calls w) TopicKeepalive ''keepalived'' = Inl err \<longrightarrow>
      Start env k w =
        (Returned (Some err), k,
         w\<lparr>calls := calls w @ [Call_Subscribe TopicKeepalive ''keepalived'']\<rparr>))
   \<and> (\<forall>sub err k2 w2.
        Subscribe_result env (calls w) TopicKeepalive ''keepalived'' = Inr sub
        \<and> initFromStore env (k\<lparr>subscription := Some sub\<rparr>)
             (w\<lparr>calls := calls w @ [Call_Subscribe TopicKeepalive ''keepalived'']\<rparr>)
            = (Returned (Some err), k2, w2)
        \<longrightarrow> (\<exists>w'. Start env k w = (Returned (Some err), k2, w')
                  \<and> calls w' = calls w2 @ [Call_Cancel sub]
                  \<and> spawned w' = spawned w
                  \<and> wg k2 = wg k))"
proof (intro conjI allI impI)
  fix err
  assume "Subscribe_result env (calls w) TopicKeepalive ''keepalived'' = Inl err"
  then show "Start env k w =
        (Returned (Some err), k,
         w\<lparr>calls := calls w @ [Call_Subscribe TopicKeepalive ''keepalived'']\<rparr>)"
    by (simp add: Start_def bus_Subscribe_def called_def)
next
  fix sub err k2 w2
  assume a: "Subscribe_result env (calls w) TopicKeepalive ''keepalived'' = Inr sub
        \<and> initFromStore env (k\<lparr>subscription := Some sub\<rparr>)
             (w\<lparr>calls := calls w @ [Call_Subscribe TopicKeepalive ''keepalived'']\<rparr>)
            = (Returned (Some err), k2, w2)"
  from a have fr: "spawned w2 = spawned w \<and> wg k2 = wg k"
    using initFromStore_frame by fastforce
  from a fr show "\<exists>w'. Start env k w = (Returned (Some err), k2, w')
                  \<and> calls w' = calls w2 @ [Call_Cancel sub]
                  \<and> spawned w' = spawned w
                  \<and> wg k2 = wg k"
    by (auto simp add: Start_def bus_Subscribe_def subscription_Cancel_def called_def
        logger_Error_def split: option.splits)
qed

theorem Start_failure_unwinding_witness:
  "Subscribe_result (env_ok\<lparr>GetFailingKeepalives_result := (\<lambda>h c. Inl (Error ''store down''))\<rparr>)
      (calls world0) TopicKeepalive ''keepalived'' = Inr (Subscription TopicKeepalive ''keepalived'')
   \<and> (\<exists>w'. Start (env_ok\<lparr>GetFailingKeepalives_result := (\<lambda>h c. Inl (Error ''store down''))\<rparr>)
               keepalived0 world0 =
              (Returned (Some (Error ''store down'')),
               keepalived0\<lparr>subscription := Some (Subscription TopicKeepalive ''keepalived'')\<rparr>,
               w')
           \<and> calls w' = [Call_Subscribe TopicKeepalive ''keepalived'',
                          Call_GetFailingKeepalives context_TODO,
                          Call_Cancel (Subscription TopicKeepalive ''keepalived'')]
           \<and> spawned w' = [])
   \<and> Subscribe_result (env_ok\<lparr>Subscribe_result := (\<lambda>h t n. Inl (Error ''bus down''))\<rparr>)
        (calls world0) TopicKeepalive ''keepalived'' = Inl (Error ''bus down'')
   \<and> Start (env_ok\<lparr>Subscribe_result := (\<lambda>h t n. Inl (Error ''bus down''))\<rparr>) keepalived0 world0 =
       (Returned (Some (Error ''bus down'')), keepalived0,
        world0\<lparr>calls := [Call_Subscribe TopicKeepalive ''keepalived'']\<rparr>)"
proof -
  let ?env = "env_ok\<lparr>GetFailingKeepalives_result := (\<lambda>h c. Inl (Error ''store down''))\<rparr>"
  let ?env' = "env_ok\<lparr>Subscribe_result := (\<lambda>h t n. Inl (Error ''bus down''))\<rparr>"
  have h0: "Subscribe_result ?env' (calls world0) TopicKeepalive ''keepalived''
              = Inl (Error ''bus down'')"
    by (simp add: env_ok_def)
  from Start_failure_unwinding [of ?env' world0 keepalived0] h0
  have s0: "Start ?env' keepalived0 world0 =
              (Returned (Some (Error ''bus down'')), keepalived0,
               world0\<lparr>calls := calls world0 @ [Call_Subscribe TopicKeepalive ''keepalived'']\<rparr>)"
    by blast
  let ?sub = "Subscription TopicKeepalive ''keepalived''"
  let ?w1 = "world0\<lparr>calls := calls world0 @ [Call_Subscribe TopicKeepalive ''keepalived'']\<rparr>"
  let ?w2 = "?w1\<lparr>calls := calls ?w1 @ [Call_GetFailingKeepalives context_TODO]\<rparr>"
  have h1: "Subscribe_result ?env (calls world0) TopicKeepalive ''keepalived'' = Inr ?sub"
    by (simp add: env_ok_def)
  have h2: "initFromStore ?env (keepalived0\<lparr>subscription := Some ?sub\<rparr>) ?w1 =
              (Returned (Some (Error ''store down'')), keepalived0\<lparr>subscription := Some ?sub\<rparr>, ?w2)"
    by (simp add: initFromStore_def store_GetFailingKeepalives_def called_def env_ok_def)
  from Start_failure_unwinding [of ?env world0 keepalived0] h1 h2
  have "\<exists>w'. Start ?env keepalived0 world0 =
               (Returned (Some (Error ''store down'')), keepalived0\<lparr>subscription := Some ?sub\<rparr>, w')
             \<and> calls w' = calls ?w2 @ [Call_Cancel ?sub]
             \<and> spawned w' = spawned world0
             \<and> wg (keepalived0\<lparr>subscription := Some ?sub\<rparr>) = wg keepalived0"
    by blast
  then show ?thesis
    using h0 s0 h1 by (simp add: world0_def)
qed

subsection \<open>The workers\<close>

lemma syncMonitors_absent:
  assumes "map_of (monitors k) (ID entity) = None"
  shows "syncMonitors entity k w =
     (let T = ucast (KeepaliveTimeout entity) * Second;
          fresh = \<lparr>mon_id = next_monitor w, mon_timeout = T, mon_stopped = False\<rparr>
      in (fresh, k\<lparr>monitors := AList.update (ID entity) fresh (monitors k)\<rparr>,
          w\<lparr>calls := calls w @ [Call_MonitorFactory (Some entity) T],
            next_monitor := Suc (next_monitor w)\<rparr>))"
  using assms by (simp add: syncMonitors_def collaborator_defs Let_def)

lemma syncMonitors_stopped:
  assumes "map_of (monitors k) (ID entity) = Some m" and "IsStopped m"
  shows "syncMonitors entity k w =
     (let T = ucast (KeepaliveTimeout entity) * Second;
          fresh = \<lparr>mon_id = next_monitor w, mon_timeout = T, mon_stopped = False\<rparr>
      in (fresh, k\<lparr>monitors := AList.update (ID entity) fresh (monitors k)\<rparr>,
          w\<lparr>calls := calls w @ [Call_MonitorFactory (Some entity) T],
            next_monitor := Suc (next_monitor w)\<rparr>))"
  using assms by (simp add: syncMonitors_def collaborator_defs Let_def)

lemma syncMonitors_changed:
  assumes "map_of (monitors k) (ID entity) = Some m" and "\<not> IsStopped m"
      and "GetTimeout m \<noteq> ucast (KeepaliveTimeout entity) * Second"
  shows "syncMonitors entity k w =
     (let T = ucast (KeepaliveTimeout entity) * Second;
          fresh = \<lparr>mon_id = next_monitor w, mon_timeout = T, mon_stopped = False\<rparr>
      in (fresh, k\<lparr>monitors := AList.update (ID entity) fresh (monitors k)\<rparr>,
          w\<lparr>calls := calls w @ [Call_MonitorStop (mon_id m), Call_MonitorFactory (Some entity) T],
            next_monitor := Suc (next_monitor w)\<rparr>))"
  using assms by (simp add: syncMonitors_def collaborator_defs Let_def)

lemma syncMonitors_same:
  assumes "map_of (monitors k) (ID entity) = Some m" and "\<not> IsStopped m"
      and "GetTimeout m = ucast (KeepaliveTimeout entity) * Second"
  shows "syncMonitors entity k w = (m, k, w)"
  using assms by (simp add: syncMonitors_def collaborator_defs Let_def)

lemma syncMonitors_cases:
  obtains (absent) "map_of (monitors k) (ID entity) = None"
  | (stopped) m where "map_of (monitors k) (ID entity) = Some m" "IsStopped m"
  | (changed) m where "map_of (monitors k) (ID entity) = Some m" "\<not> IsStopped m"
      "GetTimeout m \<noteq> ucast (KeepaliveTimeout entity) * Second"
  | (same) m where "map_of (monitors k) (ID entity) = Some m" "\<not> IsStopped m"
      "GetTimeout m = ucast (KeepaliveTimeout entity) * Second"
  by (cases "map_of (monitors k) (ID entity)") auto

text \<open>
  Whatever the case, the registry then maps the entity to the monitor chosen, which has
  the timeout of the entity and is not stopped; the rest of the daemon is as it was,
  no goroutine is launched, nothing is logged, and no event is published.
\<close>

lemma syncMonitors_registry:
  assumes "syncMonitors entity k w = (mon, k', w')"
  shows "map_of (monitors k') (ID entity) = Some mon
       \<and> GetTimeout mon = ucast (KeepaliveTimeout entity) * Second
       \<and> \<not> IsStopped mon"
proof (cases rule: syncMonitors_cases[of k entity])
  case absent
  with assms show ?thesis
    by (auto simp add: syncMonitors_absent Let_def update_conv' GetTimeout_def IsStopped_def)
next
  case (stopped m)
  with assms show ?thesis
    by (auto simp add: syncMonitors_stopped Let_def update_conv' GetTimeout_def IsStopped_def)
next
  case (changed m)
  with assms show ?thesis
    by (auto simp add: syncMonitors_changed Let_def update_conv' GetTimeout_def IsStopped_def)
next
  case (same m)
  with assms show ?thesis
    by (auto simp add: syncMonitors_same)
qed

lemma syncMonitors_frame:
  assumes "syncMonitors entity k w = (mon, k', w')"
  shows "(\<exists>ms. k' = k\<lparr>monitors := ms\<rparr>)
       \<and> spawned w' = spawned w \<and> logs w' = logs w \<and> clock w' = clock w
       \<and> clock_reads w' = clock_reads w
       \<and> published_on t (calls w') = published_on t (calls w)
       \<and> (\<exists>cs. calls w' = calls w @ cs)"
proof (cases rule: syncMonitors_cases[of k entity])
  case absent
  with assms show ?thesis
    by (auto simp add: syncMonitors_absent Let_def published_on_Cons)
next
  case (stopped m)
  with assms show ?thesis
    by (auto simp add: syncMonitors_stopped Let_def published_on_Cons)
next
  case (changed m)
  with assms show ?thesis
    by (auto simp add: syncMonitors_changed Let_def published_on_Cons)
next
  case (same m)
  with assms have "k' = k" "w' = w"
    by (auto simp add: syncMonitors_same)
  moreover have "k = k\<lparr>monitors := monitors k\<rparr>" by simp
  ultimately show ?thesis by (metis append_Nil2)
qed

text \<open>The daemon after the synchronisation does not depend on the log.\<close>

lemma syncMonitors_daemon_indep:
  assumes "next_monitor w1 = next_monitor w2"
  shows "fst (syncMonitors entity k w1) = fst (syncMonitors entity k w2)
       \<and> fst (snd (syncMonitors entity k w1)) = fst (snd (syncMonitors entity k w2))"
proof (cases rule: syncMonitors_cases[of k entity])
  case absent
  with assms show ?thesis by (simp add: syncMonitors_absent Let_def)
next
  case (stopped m)
  with assms show ?thesis by (simp add: syncMonitors_stopped Let_def)
next
  case (changed m)
  with assms show ?thesis by (simp add: syncMonitors_changed Let_def)
next
  case (same m)
  then show ?thesis by (simp add: syncMonitors_same)
qed

lemma handleEntityRegistration_frame:
  assumes "handleEntityRegistration env entity w = (r, w')"
  shows "next_monitor w' = next_monitor w \<and> spawned w' = spawned w \<and> logs w' = logs w"
  using assms
  by (auto simp add: handleEntityRegistration_def collaborator_defs createRegistrationEvent_def
      Let_def split: if_splits sum.splits option.splits)

text \<open>A turn on a valid event, written with its three steps.\<close>

lemma processKeepalive_valid:
  assumes "Entity ev = Some entity" and "Validate env entity = None"
      and "handleEntityRegistration env entity w = (r, w1)"
      and "w2 = (case r of Some err \<Rightarrow> logger_Error ''error handling entity registration'' w1
                 | None \<Rightarrow> w1)"
      and "syncMonitors entity k w2 = (mon, k', w3)"
  shows "\<exists>w'. processKeepalive env (Msg_Event ev) k w = (Returned (), k', w')
           \<and> calls w' = calls w3 @ [Call_MonitorHandleUpdate (mon_id mon) ev]
           \<and> spawned w' = spawned w3"
  using assms
  by (auto simp add: processKeepalive_def monitor_HandleUpdate_def called_def logger_Error_def
      split: option.splits)

lemma processKeepalive_frame:
  assumes "processKeepalive env msg k w = (res, k', w')"
  shows "(\<exists>ms. k' = k\<lparr>monitors := ms\<rparr>) \<and> spawned w' = spawned w
         \<and> (\<exists>cs. calls w' = calls w @ cs)"
proof -
  have triv: "\<exists>ms. k = k\<lparr>monitors := ms\<rparr>"
    by (rule exI[of _ "monitors k"]) simp
  show ?thesis
  proof (cases msg)
    case Msg_Other
    with assms triv show ?thesis
      by (auto simp add: processKeepalive_def logger_Error_def)
  next
    case Msg_NilEvent
    with assms triv show ?thesis
      by (auto simp add: processKeepalive_def)
  next
    case (Msg_Event ev)
    show ?thesis
    proof (cases "Entity ev")
      case None
      with assms triv Msg_Event show ?thesis
        by (auto simp add: processKeepalive_def logger_Error_def)
    next
      case (Some entity)
      show ?thesis
      proof (cases "Validate env entity")
        case (Some err)
        with assms triv Msg_Event \<open>Entity ev = Some entity\<close> show ?thesis
          by (auto simp add: processKeepalive_def logger_Error_def)
      next
        case None
        obtain r w1 where reg: "handleEntityRegistration env entity w = (r, w1)"
          by (cases "handleEntityRegistration env entity w") auto
        define w2 where "w2 = (case r of Some err \<Rightarrow>
             logger_Error ''error handling entity registration'' w1 | None \<Rightarrow> w1)"
        obtain mon k2 w3 where syn: "syncMonitors entity k w2 = (mon, k2, w3)"
          by (cases "syncMonitors entity k w2") auto
        from processKeepalive_valid [OF \<open>Entity ev = Some entity\<close> None reg w2_def syn]
          assms Msg_Event
        have k: "k' = k2" and c: "calls w' = calls w3 @ [Call_MonitorHandleUpdate (mon_id mon) ev]"
          and s: "spawned w' = spawned w3"
          by auto
        have "spawned w2 = spawned w \<and> (\<exists>cs. calls w2 = calls w @ cs)"
          using reg handleEntityRegistration_frame[OF reg]
          by (auto simp add: w2_def logger_Error_def handleEntityRegistration_def
              collaborator_defs createRegistrationEvent_def Let_def
              split: option.splits if_splits sum.splits)
        with syncMonitors_frame [OF syn, of TopicEvent] k c s show ?thesis
          by auto
      qed
    qed
  qed
qed


lemma handleEntityRegistration_cases:
  "handleEntityRegistration env entity w =
     (let ctx = SetContextFromResource entity;
          lookup = Call_GetEntityByID ctx (ID entity);
          reg = \<lparr>Timestamp = clock w (clock_reads w), Entity = Some entity,
                 Check = Some \<lparr>Name = ''registration'', Interval = KeepaliveTimeout entity,
                               Handlers = [''registration''],
                               Check_Environment = Environment entity,
                               Check_Organization = Organization entity, Status = 1\<rparr>\<rparr>
      in if Class entity \<noteq> ''agent'' then (None, w)
         else case GetEntityByID_result env (calls w) ctx (ID entity) of
                Inl err \<Rightarrow> (Some err, w\<lparr>calls := calls w @ [lookup]\<rparr>)
              | Inr (Some fetched) \<Rightarrow> (None, w\<lparr>calls := calls w @ [lookup]\<rparr>)
              | Inr None \<Rightarrow>
                  (Publish_result env (calls w @ [lookup]) TopicEvent reg,
                   w\<lparr>calls := calls w @ [lookup, Call_Publish TopicEvent reg],
                     clock_reads := Suc (clock_reads w)\<rparr>))"
  by (simp add: handleEntityRegistration_def store_GetEntityByID_def bus_Publish_def called_def
      time_Now_Unix_def createRegistrationEvent_def RegistrationCheckName_def
      RegistrationHandlerName_def EntityAgentClass_def Let_def
      split: sum.splits option.splits)

lemma handleEntityRegistration_published:
  assumes "handleEntityRegistration env entity w = (r, w1)"
  shows "published_on TopicEvent (calls w1) =
         published_on TopicEvent (calls w) @
           (if Class entity = ''agent''
               \<and> GetEntityByID_result env (calls w) (SetContextFromResource entity) (ID entity)
                   = Inr None
            then [\<lparr>Timestamp = clock w (clock_reads w), Entity = Some entity,
                   Check = Some \<lparr>Name = ''registration'', Interval = KeepaliveTimeout entity,
                                 Handlers = [''registration''],
                                 Check_Environment = Environment entity,
                                 Check_Organization = Organization entity, Status = 1\<rparr>\<rparr>]
            else [])"
  using assms
  by (auto simp add: handleEntityRegistration_cases Let_def published_on_Cons
      split: if_splits sum.splits option.splits)

text \<open>
  C9. For an entity of class "agent" that the store does not hold,
  \<^verbatim>\<open>handleEntityRegistration\<close> looks the entity up and publishes one event on the event
  topic, whose check is named "registration", has status 1, the only handler
  "registration" and the keepalive timeout of the entity as its interval; for an entity
  of another class it does nothing at all. In the turn of a worker on a valid event,
  that registration event is the only event published on the event topic; and whatever
  the lookup and the publication return, the daemon after the turn is the one the
  synchronisation of the monitors gives, with a monitor for the entity that has the
  timeout of the entity.
\<close>

theorem registration_side_effect:
  "let ctx = SetContextFromResource entity;
       lookup = Call_GetEntityByID ctx (ID entity);
       absent = (GetEntityByID_result env (calls w) ctx (ID entity) = Inr None);
       reg = \<lparr>Timestamp = clock w (clock_reads w), Entity = Some entity,
              Check = Some \<lparr>Name = ''registration'', Interval = KeepaliveTimeout entity,
                            Handlers = [''registration''],
                            Check_Environment = Environment entity,
                            Check_Organization = Organization entity, Status = 1\<rparr>\<rparr>
   in (Class entity = ''agent'' \<and> absent \<longrightarrow>
         handleEntityRegistration env entity w =
           (Publish_result env (calls w @ [lookup]) TopicEvent reg,
            w\<lparr>calls := calls w @ [lookup, Call_Publish TopicEvent reg],
              clock_reads := Suc (clock_reads w)\<rparr>))
    \<and> (Class entity \<noteq> ''agent'' \<longrightarrow> handleEntityRegistration env entity w = (None, w))
    \<and> (Entity ev = Some entity \<and> Validate env entity = None \<longrightarrow>
         published_on TopicEvent (calls (snd (snd (processKeepalive env (Msg_Event ev) k w)))) =
           published_on TopicEvent (calls w) @ (if Class entity = ''agent'' \<and> absent then [reg] else [])
         \<and> fst (snd (processKeepalive env (Msg_Event ev) k w)) = fst (snd (syncMonitors entity k w))
         \<and> (\<exists>mon. map_of (monitors (fst (snd (processKeepalive env (Msg_Event ev) k w))))
                       (ID entity) = Some mon
                  \<and> GetTimeout mon = ucast (KeepaliveTimeout entity) * Second)
         \<and> fst (processKeepalive env (Msg_Event ev) k w) = Returned ())"
proof -
  have turn: "published_on TopicEvent
                (calls (snd (snd (processKeepalive env (Msg_Event ev) k w)))) =
           published_on TopicEvent (calls w) @
             (if Class entity = ''agent''
                 \<and> GetEntityByID_result env (calls w) (SetContextFromResource entity) (ID entity)
                     = Inr None
              then [\<lparr>Timestamp = clock w (clock_reads w), Entity = Some entity,
                     Check = Some \<lparr>Name = ''registration'', Interval = KeepaliveTimeout entity,
                                   Handlers = [''registration''],
                                   Check_Environment = Environment entity,
                                   Check_Organization = Organization entity, Status = 1\<rparr>\<rparr>]
              else [])
         \<and> fst (snd (processKeepalive env (Msg_Event ev) k w)) = fst (snd (syncMonitors entity k w))
         \<and> (\<exists>mon. map_of (monitors (fst (snd (processKeepalive env (Msg_Event ev) k w))))
                       (ID entity) = Some mon
                  \<and> GetTimeout mon = ucast (KeepaliveTimeout entity) * Second)
         \<and> fst (processKeepalive env (Msg_Event ev) k w) = Returned ()"
    (is ?turn)
    if valid: "Entity ev = Some entity" "Validate env entity = None"
  proof -
    obtain r w1 where reg: "handleEntityRegistration env entity w = (r, w1)"
      by (cases "handleEntityRegistration env entity w") auto
    define w2 where "w2 = (case r of Some err \<Rightarrow>
         logger_Error ''error handling entity registration'' w1 | None \<Rightarrow> w1)"
    obtain mon k2 w3 where syn: "syncMonitors entity k w2 = (mon, k2, w3)"
      by (cases "syncMonitors entity k w2") auto
    from processKeepalive_valid [OF valid reg w2_def syn]
    obtain w' where turn: "processKeepalive env (Msg_Event ev) k w = (Returned (), k2, w')"
      and c: "calls w' = calls w3 @ [Call_MonitorHandleUpdate (mon_id mon) ev]"
      by auto
    have c2: "calls w2 = calls w1" and n2: "next_monitor w2 = next_monitor w"
      using handleEntityRegistration_frame [OF reg]
      by (auto simp add: w2_def logger_Error_def split: option.splits)
    have p3: "published_on TopicEvent (calls w3) = published_on TopicEvent (calls w1)"
      using syncMonitors_frame [OF syn, of TopicEvent] c2 by simp
    have "fst (snd (syncMonitors entity k w2)) = fst (snd (syncMonitors entity k w))"
      using syncMonitors_daemon_indep [OF n2] by simp
    then have d: "k2 = fst (snd (syncMonitors entity k w))"
      using syn by simp
    show ?thesis
      using turn c p3 d handleEntityRegistration_published [OF reg] syncMonitors_registry [OF syn]
      by (simp add: published_on_Cons)
  qed
  show ?thesis
    unfolding Let_def
  proof (intro conjI impI, goal_cases)
    case 1
    then show ?case by (simp add: handleEntityRegistration_cases Let_def)
  next
    case 2
    then show ?case by (simp add: handleEntityRegistration_cases Let_def)
  next
    case 3
    then have "Entity ev = Some entity" and "Validate env entity = None" by simp_all
    then have t: ?turn by (rule turn)
    from t show ?case by (rule conjunct1)
  next
    case 4
    then have "Entity ev = Some entity" and "Validate env entity = None" by simp_all
    then have t: ?turn by (rule turn)
    from t show ?case by (rule conjunct1 [OF conjunct2])
  next
    case 5
    then have "Entity ev = Some entity" and "Validate env entity = None" by simp_all
    then have t: ?turn by (rule turn)
    from t show ?case by (rule conjunct1 [OF conjunct2 [OF conjunct2]])
  next
    case 6
    then have "Entity ev = Some entity" and "Validate env entity = None" by simp_all
    then have t: ?turn by (rule turn)
    from t show ?case by (rule conjunct2 [OF conjunct2 [OF conjunct2]])
  qed
qed


theorem registration_side_effect_witness:
  "Class entity_p1 \<noteq> ''agent''
   \<and> handleEntityRegistration env_ok entity_p1 world0 = (None, world0)
   \<and> Class entity_a1 = ''agent''
   \<and> GetEntityByID_result env_ok (calls world0) (SetContextFromResource entity_a1) (ID entity_a1)
       = Inr None
   \<and> Entity event_a1 = Some entity_a1 \<and> Validate env_ok entity_a1 = None
   \<and> handleEntityRegistration env_ok entity_a1 world0 =
       (None,
        world0\<lparr>calls :=
                 [Call_GetEntityByID
                    \<lparr>ctx_Organization = Some ''o'', ctx_Environment = Some ''e''\<rparr> ''a1'',
                  Call_Publish TopicEvent
                    \<lparr>Timestamp = 1000, Entity = Some entity_a1,
                     Check = Some \<lparr>Name = ''registration'', Interval = 30,
                                   Handlers = [''registration''], Check_Environment = ''e'',
                                   Check_Organization = ''o'', Status = 1\<rparr>\<rparr>],
               clock_reads := 1\<rparr>)
   \<and> published_on TopicEvent
        (calls (snd (snd (processKeepalive env_ok (Msg_Event event_a1) keepalived0 world0)))) =
       [\<lparr>Timestamp = 1000, Entity = Some entity_a1,
         Check = Some \<lparr>Name = ''registration'', Interval = 30,
                       Handlers = [''registration''], Check_Environment = ''e'',
                       Check_Organization = ''o'', Status = 1\<rparr>\<rparr>]"
  using registration_side_effect [of entity_a1 env_ok world0 event_a1 keepalived0]
    registration_side_effect [of entity_p1 env_ok world0 event_a1 keepalived0]
  by (simp add: Let_def input_defs SetContextFromResource_def)

text \<open>
  C1. The synchronisation of the monitors, for the entity of a keepalive event. The
  timeout it works with is the keepalive timeout of the entity in seconds, as a
  \<^verbatim>\<open>Duration\<close>, which cannot overflow. After it, the registry maps the ID of the entity
  to the monitor chosen, whose timeout is that one. If the registry had no entry for the
  ID, or had a stopped monitor, a new monitor is made and installed. If it had a monitor
  that was not stopped and whose timeout was another one, that monitor is stopped, and a
  new one is made and installed. Otherwise the monitor found is the one chosen, and the
  daemon and the world are as they were. This is the state of the registry after the
  turn of a worker on any valid event.
\<close>

theorem timeout_convergence:
  "let T = ucast (KeepaliveTimeout entity) * Second;
       found = map_of (monitors k) (ID entity);
       fresh = \<lparr>mon_id = next_monitor w, mon_timeout = T, mon_stopped = False\<rparr>;
       installed = k\<lparr>monitors := AList.update (ID entity) fresh (monitors k)\<rparr>;
       made = Call_MonitorFactory (Some entity) T
   in sint T = uint (KeepaliveTimeout entity) * 1000000000
    \<and> map_of (monitors (fst (snd (syncMonitors entity k w)))) (ID entity)
        = Some (fst (syncMonitors entity k w))
    \<and> GetTimeout (fst (syncMonitors entity k w)) = T
    \<and> (found = None \<or> (\<exists>m. found = Some m \<and> IsStopped m) \<longrightarrow>
         syncMonitors entity k w =
           (fresh, installed,
            w\<lparr>calls := calls w @ [made], next_monitor := Suc (next_monitor w)\<rparr>))
    \<and> (\<forall>m. found = Some m \<and> \<not> IsStopped m \<and> GetTimeout m \<noteq> T \<longrightarrow>
         syncMonitors entity k w =
           (fresh, installed,
            w\<lparr>calls := calls w @ [Call_MonitorStop (mon_id m), made],
              next_monitor := Suc (next_monitor w)\<rparr>))
    \<and> (\<forall>m. found = Some m \<and> \<not> IsStopped m \<and> GetTimeout m = T \<longrightarrow>
         syncMonitors entity k w = (m, k, w))
    \<and> (\<forall>env ev. Entity ev = Some entity \<and> Validate env entity = None \<longrightarrow>
         fst (processKeepalive env (Msg_Event ev) k w) = Returned ()
         \<and> fst (snd (processKeepalive env (Msg_Event ev) k w))
             = fst (snd (syncMonitors entity k w)))"
proof -
  obtain mon k' w' where syn: "syncMonitors entity k w = (mon, k', w')"
    by (cases "syncMonitors entity k w") auto
  have turn: "fst (processKeepalive env (Msg_Event ev) k w) = Returned ()
         \<and> fst (snd (processKeepalive env (Msg_Event ev) k w))
             = fst (snd (syncMonitors entity k w))"
    if valid: "Entity ev = Some entity" "Validate env entity = None" for env ev
  proof -
    obtain r w1 where reg: "handleEntityRegistration env entity w = (r, w1)"
      by (cases "handleEntityRegistration env entity w") auto
    define w2 where "w2 = (case r of Some err \<Rightarrow>
         logger_Error ''error handling entity registration'' w1 | None \<Rightarrow> w1)"
    obtain mon2 k2 w3 where syn2: "syncMonitors entity k w2 = (mon2, k2, w3)"
      by (cases "syncMonitors entity k w2") auto
    from processKeepalive_valid [OF valid reg w2_def syn2]
    have t: "fst (processKeepalive env (Msg_Event ev) k w) = Returned ()
             \<and> fst (snd (processKeepalive env (Msg_Event ev) k w)) = k2"
      by auto
    have "next_monitor w2 = next_monitor w"
      using handleEntityRegistration_frame [OF reg]
      by (auto simp add: w2_def logger_Error_def split: option.splits)
    from syncMonitors_daemon_indep [OF this, of entity k] syn2 t show ?thesis
      by simp
  qed
  show ?thesis
    unfolding Let_def
  proof (intro conjI impI allI, goal_cases)
    case 1
    show ?case by (rule seconds_no_overflow)
  next
    case 2
    show ?case using syncMonitors_registry [OF syn] syn by simp
  next
    case 3
    show ?case using syncMonitors_registry [OF syn] syn by simp
  next
    case 4
    then show ?case
      by (auto simp add: syncMonitors_absent syncMonitors_stopped Let_def)
  next
    case (5 m)
    then show ?case
      by (simp add: syncMonitors_changed Let_def)
  next
    case (6 m)
    then show ?case
      by (simp add: syncMonitors_same)
  next
    case (7 env ev)
    then show ?case
      using turn by blast
  next
    case (8 env ev)
    then show ?case
      using turn by blast
  qed
qed


theorem timeout_convergence_witness:
  "map_of (monitors keepalived_a1_60) (ID entity_a1) = Some monitor_a1_60
   \<and> \<not> IsStopped monitor_a1_60
   \<and> GetTimeout monitor_a1_60 \<noteq> ucast (KeepaliveTimeout entity_a1) * Second
   \<and> syncMonitors entity_a1 keepalived_a1_60 world1 =
       (\<lparr>mon_id = 1, mon_timeout = 30000000000, mon_stopped = False\<rparr>,
        keepalived0\<lparr>monitors :=
                      [(''a1'', \<lparr>mon_id = 1, mon_timeout = 30000000000, mon_stopped = False\<rparr>)]\<rparr>,
        world0\<lparr>calls := [Call_MonitorStop 0, Call_MonitorFactory (Some entity_a1) 30000000000],
               next_monitor := 2\<rparr>)
   \<and> Entity event_a1 = Some entity_a1 \<and> Validate env_ok entity_a1 = None
   \<and> map_of (monitors keepalived0) (ID entity_a1) = None
   \<and> fst (snd (processKeepalive env_ok (Msg_Event event_a1) keepalived0 world0)) =
       keepalived0\<lparr>monitors :=
                     [(''a1'', \<lparr>mon_id = 0, mon_timeout = 30000000000, mon_stopped = False\<rparr>)]\<rparr>"
proof -
  have h1: "map_of (monitors keepalived_a1_60) (ID entity_a1) = Some monitor_a1_60
            \<and> \<not> IsStopped monitor_a1_60
            \<and> GetTimeout monitor_a1_60 \<noteq> ucast (KeepaliveTimeout entity_a1) * Second"
    by (simp add: keepalived_a1_60_def keepalived0_def entity_a1_def monitor_a1_60_def
        IsStopped_def GetTimeout_def Second_def)
  have h2: "Entity event_a1 = Some entity_a1 \<and> Validate env_ok entity_a1 = None"
    by (simp add: event_a1_def env_ok_def entity_a1_def)
  have h3: "map_of (monitors keepalived0) (ID entity_a1) = None"
    by (simp add: keepalived0_def)
  note c1 = timeout_convergence [of entity_a1 keepalived_a1_60 world1, unfolded Let_def]
  note c2 = timeout_convergence [of entity_a1 keepalived0 world0, unfolded Let_def]
  from c1 h1 have s1: "syncMonitors entity_a1 keepalived_a1_60 world1 =
       (\<lparr>mon_id = next_monitor world1, mon_timeout = ucast (KeepaliveTimeout entity_a1) * Second,
          mon_stopped = False\<rparr>,
        keepalived_a1_60\<lparr>monitors := AList.update (ID entity_a1)
           \<lparr>mon_id = next_monitor world1,
              mon_timeout = ucast (KeepaliveTimeout entity_a1) * Second, mon_stopped = False\<rparr>
           (monitors keepalived_a1_60)\<rparr>,
        world1\<lparr>calls := calls world1 @
                 [Call_MonitorStop (mon_id monitor_a1_60),
                  Call_MonitorFactory (Some entity_a1)
                    (ucast (KeepaliveTimeout entity_a1) * Second)],
               next_monitor := Suc (next_monitor world1)\<rparr>)"
    by blast
  from c2 h3 have s2: "syncMonitors entity_a1 keepalived0 world0 =
       (\<lparr>mon_id = next_monitor world0, mon_timeout = ucast (KeepaliveTimeout entity_a1) * Second,
          mon_stopped = False\<rparr>,
        keepalived0\<lparr>monitors := AList.update (ID entity_a1)
           \<lparr>mon_id = next_monitor world0,
              mon_timeout = ucast (KeepaliveTimeout entity_a1) * Second, mon_stopped = False\<rparr>
           (monitors keepalived0)\<rparr>,
        world0\<lparr>calls := calls world0 @
                 [Call_MonitorFactory (Some entity_a1)
                    (ucast (KeepaliveTimeout entity_a1) * Second)],
               next_monitor := Suc (next_monitor world0)\<rparr>)"
    by blast
  from c2 h2 have s3: "fst (snd (processKeepalive env_ok (Msg_Event event_a1) keepalived0 world0)) =
       fst (snd (syncMonitors entity_a1 keepalived0 world0))"
    by blast
  show ?thesis
    using h1 h2 h3 s1 s2 s3
    by (simp add: keepalived_a1_60_def keepalived0_def world1_def world0_def
        monitor_a1_60_def entity_a1_def Second_def)
qed


subsection \<open>The stop\<close>

lemma go_times_spawned:
  "go_times n g w =
     w\<lparr>spawned := spawned w @ replicate n g, calls := calls w @ replicate n (Call_go g)\<rparr>"
proof (induction n arbitrary: w)
  case 0
  show ?case by simp
next
  case (Suc n)
  show ?case
    by (simp add: Suc.IH go_def called_def replicate_app_Cons_same)
qed






lemma processKeepalive_running:
  assumes "processKeepalive env msg k w = (res, k', w')" and "running k"
  shows "running k'"
  using processKeepalive_frame [OF assms(1)] assms(2)
  by (auto simp add: running_def)

lemma startWorkers_result:
  "startWorkers k w = (Returned u, k', w') \<Longrightarrow>
     k' = k\<lparr>wg := Some (nat (handlerCount k))\<rparr>
     \<and> w' = w\<lparr>spawned := spawned w @ replicate (nat (handlerCount k)) Go_processKeepalives,
              calls := calls w @ replicate (nat (handlerCount k)) (Call_go Go_processKeepalives)\<rparr>"
  by (auto simp add: startWorkers_def go_times_spawned split: if_splits)

text \<open>
  When \<^verbatim>\<open>Start\<close> returns nil on a daemon whose channels are open, the daemon is
  running, one worker for each handler and the sweeper have been launched.
\<close>

lemma Start_running:
  assumes "Start env k w = (Returned None, k', w')"
      and "\<not> chan_closed (keepaliveChan k)" and "\<not> chan_closed (errChan k)"
  shows "running k'
       \<and> spawned w' = spawned w @ replicate (nat (handlerCount k)) Go_processKeepalives
                        @ [Go_MonitorSweeper]"
proof -
  obtain r w1 where sub: "bus_Subscribe env TopicKeepalive ''keepalived'' w = (r, w1)"
    by (cases "bus_Subscribe env TopicKeepalive ''keepalived'' w") auto
  have w1: "spawned w1 = spawned w"
    using sub by (auto simp add: bus_Subscribe_def called_def)
  from assms(1) sub obtain s where r: "r = Inr s"
    by (cases r) (auto simp add: Start_def)
  obtain r2 k2 w2 where ini: "initFromStore env (k\<lparr>subscription := Some s\<rparr>) w1 = (r2, k2, w2)"
    by (cases "initFromStore env (k\<lparr>subscription := Some s\<rparr>) w1") auto
  from assms(1) sub r ini have r2: "r2 = Returned None"
    by (auto simp add: Start_def Let_def split: outcome.splits option.splits prod.splits)
  obtain o3 k3 w3 where sw: "startWorkers k2 w2 = (o3, k3, w3)"
    by (cases "startWorkers k2 w2") auto
  from assms(1) sub r ini r2 sw obtain u where o3: "o3 = Returned u"
    and res: "k' = k3" "w' = startMonitorSweeper k3 w3"
    by (cases o3) (auto simp add: Start_def)
  note fr = initFromStore_frame [OF ini]
  note st = startWorkers_result [OF sw [unfolded o3]]
  show ?thesis
    using fr st res w1 assms(2,3)
    by (simp add: running_def startMonitorSweeper_def go_def called_def)
qed

text \<open>\<^verbatim>\<open>New\<close> and \<^verbatim>\<open>Start\<close> on the concrete inputs.\<close>

lemma New_example: "New \<lparr>DeregistrationHandler = ''deregistration''\<rparr> [] = Inr keepalived0"
  by (simp add: New_def keepalived0_def make_chan_def DefaultHandlerCount_def)


text \<open>
  \<^verbatim>\<open>Stop\<close> on a daemon that was not started, or whose keepalive channel is closed,
  panics.
\<close>

lemma Stop_not_started: "subscription k = None \<Longrightarrow> Stop env k w = (Panicked, k, w)"
  by (simp add: Stop_def)


text \<open>Once \<^verbatim>\<open>Stop\<close> has returned, the daemon is not running any more.\<close>

lemma Stop_returned_not_running:
  "Stop env k w = (Returned r, k', w') \<Longrightarrow> \<not> running k'"
  by (auto simp add: Stop_def Let_def running_def
      split: option.splits if_splits prod.splits outcome.splits)




end
